theory Spec2Isabelle
  imports Complex_Main "HOL-Library.Log_Nat"
begin

section \<open>The payment orchestration service (stripe.service.ts, stripe.controller.ts)\<close>

text \<open>
  A shallow embedding of \<^verbatim>\<open>StripeService\<close> and of the webhook route of
  \<^verbatim>\<open>StripeController\<close>. Every method of the service is an \<^verbatim>\<open>async\<close> function
  that talks to collaborators it does not implement: the payment platform's client, the
  logger, the configuration service and the clock. They are the fields of one record
  \<open>stripe_env\<close>, each a function on an abstract world state \<open>'s\<close>; a method of the
  service takes the world and returns its outcome together with the new world. A rejected
  promise (a thrown exception) is the \<open>Inl\<close> of the outcome.

  Numbers the service computes with (charge amounts, euros, rates, the plan price) are
  JavaScript numbers: IEEE 754 doubles, every operation rounded to the nearest double.
  Amounts the service only passes on, Unix times and lengths are integers. Strings are
  byte lists; the accented letters of the source's messages are their UTF-8 bytes.
\<close>

subsection \<open>Exceptions and the promise monad\<close>

datatype exn =
    StripeError "string option" string
  | BadRequestException string
  | TypeError string

text \<open>\<^verbatim>\<open>err.code\<close>: only the platform's errors carry one.\<close>

fun err_code :: "exn \<Rightarrow> string option" where
  "err_code (StripeError c m) = c"
| "err_code (BadRequestException m) = None"
| "err_code (TypeError m) = None"

text \<open>\<^verbatim>\<open>err.message\<close>\<close>

fun err_message :: "exn \<Rightarrow> string" where
  "err_message (StripeError c m) = m"
| "err_message (BadRequestException m) = m"
| "err_message (TypeError m) = m"

type_synonym ('s, 'a) promise = "'s \<Rightarrow> (exn + 'a) \<times> 's"

definition resolve :: "'a \<Rightarrow> ('s, 'a) promise" where
  "resolve x s = (Inr x, s)"

definition throw :: "exn \<Rightarrow> ('s, 'a) promise" where
  "throw e s = (Inl e, s)"

text \<open>\<^verbatim>\<open>const x = await m; f x\<close>: a rejection of \<open>m\<close> skips \<open>f\<close>.\<close>

definition await :: "('s, 'a) promise \<Rightarrow> ('a \<Rightarrow> ('s, 'b) promise) \<Rightarrow> ('s, 'b) promise" where
  "await m f s = (case m s of (Inl e, s') \<Rightarrow> (Inl e, s') | (Inr x, s') \<Rightarrow> f x s')"

text \<open>\<^verbatim>\<open>try { m } catch (err) { h err }\<close>\<close>

definition try_catch :: "('s, 'a) promise \<Rightarrow> (exn \<Rightarrow> ('s, 'a) promise) \<Rightarrow> ('s, 'a) promise" where
  "try_catch m h s = (case m s of (Inl e, s') \<Rightarrow> h e s' | (Inr x, s') \<Rightarrow> (Inr x, s'))"

text \<open>A call that only changes the world (a logger call), then the rest.\<close>

definition effect :: "('s \<Rightarrow> 's) \<Rightarrow> ('s, 'a) promise \<Rightarrow> ('s, 'a) promise" where
  "effect f m s = m (f s)"

subsection \<open>Strings of the source\<close>

definition e_acute :: string where "e_acute = [CHR 0xC3, CHR 0xA9]"
definition E_acute :: string where "E_acute = [CHR 0xC3, CHR 0x89]"
definition e_grave :: string where "e_grave = [CHR 0xC3, CHR 0xA8]"
definition a_grave :: string where "a_grave = [CHR 0xC3, CHR 0xA0]"
definition rsquo :: string where "rsquo = [CHR 0xE2, CHR 0x80, CHR 0x99]"
definition hellip :: string where "hellip = [CHR 0xE2, CHR 0x80, CHR 0xA6]"




text \<open>\<^verbatim>\<open>s.includes(sub)\<close>: \<open>sub\<close> occurs in \<open>s\<close> as a contiguous block.\<close>

fun starts_with :: "string \<Rightarrow> string \<Rightarrow> bool" where
  "starts_with s [] = True"
| "starts_with [] (c # sub) = False"
| "starts_with (d # s) (c # sub) = (d = c \<and> starts_with s sub)"

fun str_includes :: "string \<Rightarrow> string \<Rightarrow> bool" where
  "str_includes [] sub = (sub = [])"
| "str_includes (d # s) sub = (starts_with (d # s) sub \<or> str_includes s sub)"

subsection \<open>JavaScript numbers\<close>

text \<open>
  A number is a finite double, given by its exact rational value, an infinity or NaN.
  The two zeros are one value here: the service never divides by a computed zero and
  never prints a zero's sign. \<open>fl x\<close> is the double nearest to the rational \<open>x\<close>, a tie
  going to the even significand: with \<open>2 powi e \<le> \<bar>x\<bar> < 2 powi (e + 1)\<close> the doubles
  around \<open>x\<close> are the multiples of \<open>2 powi (e - 52)\<close>, or of \<open>2 powi (- 1074)\<close> in the
  subnormal range, and a result of \<open>2 powi 1024\<close> or more is an infinity.
\<close>

datatype number = Num rat | PosInfinity | NegInfinity | NaN

definition ilog2 :: "rat \<Rightarrow> int" where
  "ilog2 x = (if 1 \<le> x then bitlen \<lfloor>x\<rfloor> - 1 else - bitlen (\<lceil>1 / x\<rceil> - 1))"

definition round_half_even :: "rat \<Rightarrow> int" where
  "round_half_even m =
     (let f = \<lfloor>m\<rfloor>; r = m - of_int f
      in if r < 1 / 2 then f else if 1 / 2 < r then f + 1 else if even f then f else f + 1)"

definition fl_pos :: "rat \<Rightarrow> number" where
  "fl_pos x =
     (let q = max (ilog2 x - 52) (- 1074);
          r = of_int (round_half_even (x / 2 powi q)) * 2 powi q
      in if 2 powi 1024 \<le> r then PosInfinity else Num r)"

fun negate :: "number \<Rightarrow> number" where
  "negate (Num r) = Num (- r)"
| "negate PosInfinity = NegInfinity"
| "negate NegInfinity = PosInfinity"
| "negate NaN = NaN"

definition fl :: "rat \<Rightarrow> number" where
  "fl x = (if x = 0 then Num 0 else if 0 < x then fl_pos x else negate (fl_pos (- x)))"

text \<open>\<^verbatim>\<open>x + y\<close>, \<^verbatim>\<open>x * y\<close>, \<^verbatim>\<open>x / y\<close> and \<^verbatim>\<open>x > y\<close> on numbers.\<close>

fun num_add :: "number \<Rightarrow> number \<Rightarrow> number" where
  "num_add (Num a) (Num b) = fl (a + b)"
| "num_add NaN y = NaN"
| "num_add x NaN = NaN"
| "num_add PosInfinity NegInfinity = NaN"
| "num_add NegInfinity PosInfinity = NaN"
| "num_add PosInfinity y = PosInfinity"
| "num_add x PosInfinity = PosInfinity"
| "num_add NegInfinity y = NegInfinity"
| "num_add x NegInfinity = NegInfinity"

fun num_mul :: "number \<Rightarrow> number \<Rightarrow> number" where
  "num_mul (Num a) (Num b) = fl (a * b)"
| "num_mul NaN y = NaN"
| "num_mul x NaN = NaN"
| "num_mul PosInfinity (Num b) = (if b = 0 then NaN else if 0 < b then PosInfinity else NegInfinity)"
| "num_mul NegInfinity (Num b) = (if b = 0 then NaN else if 0 < b then NegInfinity else PosInfinity)"
| "num_mul (Num a) PosInfinity = (if a = 0 then NaN else if 0 < a then PosInfinity else NegInfinity)"
| "num_mul (Num a) NegInfinity = (if a = 0 then NaN else if 0 < a then NegInfinity else PosInfinity)"
| "num_mul PosInfinity PosInfinity = PosInfinity"
| "num_mul NegInfinity NegInfinity = PosInfinity"
| "num_mul PosInfinity NegInfinity = NegInfinity"
| "num_mul NegInfinity PosInfinity = NegInfinity"

fun num_div :: "number \<Rightarrow> number \<Rightarrow> number" where
  "num_div (Num a) (Num b) =
     (if b = 0 then (if a = 0 then NaN else if 0 < a then PosInfinity else NegInfinity)
      else fl (a / b))"
| "num_div NaN y = NaN"
| "num_div x NaN = NaN"
| "num_div (Num a) y = Num 0"
| "num_div PosInfinity (Num b) = (if 0 \<le> b then PosInfinity else NegInfinity)"
| "num_div NegInfinity (Num b) = (if 0 \<le> b then NegInfinity else PosInfinity)"
| "num_div x y = NaN"

fun num_gt :: "number \<Rightarrow> number \<Rightarrow> bool" where
  "num_gt (Num a) (Num b) = (b < a)"
| "num_gt NaN y = False"
| "num_gt x NaN = False"
| "num_gt x PosInfinity = False"
| "num_gt NegInfinity y = False"
| "num_gt PosInfinity y = True"
| "num_gt x NegInfinity = True"

text \<open>\<^verbatim>\<open>!x\<close> holds of a number exactly when it is zero or NaN.\<close>

definition falsy :: "number \<Rightarrow> bool" where
  "falsy x = (x = Num 0 \<or> x = NaN)"

text \<open>
  \<^verbatim>\<open>Math.round\<close>: the nearest integer, a tie going up. The result is exact: a double of
  magnitude \<open>2 ^ 52\<close> or more is an integer already.
\<close>

fun Math_round :: "number \<Rightarrow> number" where
  "Math_round (Num y) = Num (of_int \<lfloor>y + 1 / 2\<rfloor>)"
| "Math_round x = x"

subsection \<open>The platform's objects, as far as the service reads them\<close>

record 'a list_page =
  page_data :: "'a list"
  has_more :: bool

record payment_method =
  pm_id :: string

record customer =
  cus_id :: string

record subscription =
  sub_id :: string

record payment_intent =
  pi_id :: string
  pi_status :: string
  pi_payment_method_types :: "string list"
  pi_amount_received :: "number option"

record charge =
  ch_id :: string
  ch_paid :: bool
  ch_refunded :: bool
  ch_amount :: "number option"
  ch_amount_refunded :: number

record product =
  prod_id :: string

record price =
  price_id :: string
  price_unit_amount :: number

record requirements =
  currently_due :: "string list option"

record account =
  details_submitted :: bool
  charges_enabled :: bool
  payouts_enabled :: bool
  acct_requirements :: "requirements option"

record transfer =
  tr_id :: string
  tr_amount :: int
  tr_currency :: string
  tr_destination :: string
  tr_object :: string
  tr_created :: int

record event =
  ev_type :: string

text \<open>A \<^verbatim>\<open>Date\<close>: its time value in milliseconds, or an invalid date (\<^verbatim>\<open>getTime()\<close> is NaN).\<close>

datatype js_date = Date int | InvalidDate

fun getTime :: "js_date \<Rightarrow> int option" where
  "getTime (Date ms) = Some ms"
| "getTime InvalidDate = None"

subsection \<open>The requests the service sends\<close>

record pm_list_params =
  pml_customer :: string
  pml_type :: string
  pml_limit :: nat

record subscription_create_params =
  sc_customer :: string
  sc_items :: "string list"
  sc_trial_end :: "int option"

record pi_create_params =
  pic_amount :: int
  pic_currency :: string
  pic_customer :: string
  pic_payment_method :: string
  pic_off_session :: bool
  pic_confirm :: bool
  pic_description :: string

record price_create_params =
  prc_unit_amount :: number
  prc_currency :: string
  prc_recurring_interval :: string
  prc_product :: string

record charges_list_params =
  cl_created :: "(int \<times> int) option"
  cl_payment_intent :: "string option"
  cl_limit :: nat
  cl_starting_after :: "string option"

record transfer_create_params =
  tc_amount :: int
  tc_currency :: string
  tc_destination :: string

subsection \<open>The collaborators\<close>

record 's stripe_env =
  paymentMethods_list :: "pm_list_params \<Rightarrow> ('s, payment_method list_page) promise"
  paymentMethods_attach :: "string \<Rightarrow> string \<Rightarrow> ('s, payment_method) promise"
  customers_update :: "string \<Rightarrow> string \<Rightarrow> ('s, customer) promise"
  subscriptions_create :: "subscription_create_params \<Rightarrow> ('s, subscription) promise"
  paymentIntents_create :: "pi_create_params \<Rightarrow> ('s, payment_intent) promise"
  paymentIntents_list :: "nat \<Rightarrow> ('s, payment_intent list_page) promise"
  products_create :: "string \<Rightarrow> ('s, product) promise"
  prices_create :: "price_create_params \<Rightarrow> ('s, price) promise"
  charges_list :: "charges_list_params \<Rightarrow> ('s, charge list_page) promise"
  accounts_retrieve :: "string \<Rightarrow> ('s, account) promise"
  transfers_create :: "transfer_create_params \<Rightarrow> ('s, transfer) promise"
  webhooks_constructEvent :: "string \<Rightarrow> string option \<Rightarrow> string option \<Rightarrow> ('s, event) promise"
  config_get :: "string \<Rightarrow> 's \<Rightarrow> string option"
  Date_now :: "'s \<Rightarrow> int"
  logger_log :: "string \<Rightarrow> 's \<Rightarrow> 's"
  logger_error :: "string \<Rightarrow> exn \<Rightarrow> 's \<Rightarrow> 's"
  logger_warn :: "string \<Rightarrow> exn \<Rightarrow> 's \<Rightarrow> 's"

subsection \<open>createPriceForPlan\<close>

definition createPriceForPlan :: "'s stripe_env \<Rightarrow> string \<Rightarrow> number \<Rightarrow> ('s, price) promise" where
  "createPriceForPlan env planName planPrice =
     (if planName = [] \<or> falsy planPrice
      then throw (BadRequestException ''Le plan doit avoir un nom et un prix valides.'')
      else try_catch
        (await (products_create env planName) (\<lambda>product.
         await (prices_create env
           \<lparr>prc_unit_amount = Math_round (num_mul planPrice (Num 100)), prc_currency = ''eur'',
            prc_recurring_interval = ''month'', prc_product = prod_id product\<rparr>) (\<lambda>price.
         resolve price)))
        (\<lambda>err. effect (logger_error env (''Erreur lors de la cr'' @ e_acute @ ''ation du plan '' @ planName) err)
           (throw (BadRequestException (''Impossible de cr'' @ e_acute @ ''er le plan sur Stripe'')))))"

subsection \<open>attachPaymentMethod\<close>

definition attachPaymentMethod :: "'s stripe_env \<Rightarrow> string \<Rightarrow> string \<Rightarrow> ('s, unit) promise" where
  "attachPaymentMethod env customerId paymentMethodId =
     try_catch
       (await (paymentMethods_list env
          \<lparr>pml_customer = customerId, pml_type = ''card'', pml_limit = 100\<rparr>) (\<lambda>existingPMs.
        let alreadyAttached = list_ex (\<lambda>pm. pm_id pm = paymentMethodId) (page_data existingPMs) in
        if alreadyAttached
        then throw (BadRequestException
          (''Cette m'' @ e_acute @ ''thode de paiement est d'' @ e_acute @ ''j'' @ a_grave
             @ '' attach'' @ e_acute @ ''e au client.''))
        else
          await (paymentMethods_attach env paymentMethodId customerId) (\<lambda>_.
          await (customers_update env customerId paymentMethodId) (\<lambda>_.
          resolve ()))))
       (\<lambda>err. effect
          (logger_error env
             (''Impossible d'' @ rsquo @ ''attacher le PaymentMethod '' @ paymentMethodId
                @ '' au client '' @ customerId) err)
          (throw (BadRequestException
             (''Erreur lors de l'' @ rsquo @ ''attachement de la m'' @ e_acute
                @ ''thode de paiement.''))))"

subsection \<open>createSubscription\<close>

definition createSubscription ::
    "'s stripe_env \<Rightarrow> string \<Rightarrow> string \<Rightarrow> js_date option \<Rightarrow> ('s, subscription) promise" where
  "createSubscription env customerId priceId startDate =
     try_catch
       (\<lambda>s.
          let params = \<lparr>sc_customer = customerId, sc_items = [priceId], sc_trial_end = None\<rparr>;
              params =
                (case startDate of
                   None \<Rightarrow> params
                 | Some d \<Rightarrow>
                     (case getTime d of
                        None \<Rightarrow> params
                      | Some ms \<Rightarrow>
                          if ms > Date_now env s
                          then (let unixTs = ms div 1000 in params\<lparr>sc_trial_end := Some unixTs\<rparr>)
                          else params))
          in await (subscriptions_create env params) resolve s)
       (\<lambda>err. effect
          (logger_error env
             (''Erreur lors de la cr'' @ e_acute @ ''ation d'' @ [CHR 0x27] @ ''un abonnement pour ''
                @ customerId) err)
          (throw (BadRequestException
             (''Impossible de cr'' @ e_acute @ ''er l'' @ rsquo @ ''abonnement Stripe''))))"

subsection \<open>chargeCustomer\<close>

record charge_result =
  paymentIntentId :: string

definition chargeCustomer ::
    "'s stripe_env \<Rightarrow> string \<Rightarrow> int \<Rightarrow> string \<Rightarrow> ('s, charge_result) promise" where
  "chargeCustomer env customerId amountInCents description =
     try_catch
       (await (paymentMethods_list env
          \<lparr>pml_customer = customerId, pml_type = ''card'', pml_limit = 1\<rparr>) (\<lambda>pms.
        case page_data pms of
          [] \<Rightarrow> throw (BadRequestException
            (''Aucun moyen de paiement attach'' @ e_acute @ '' au client.''))
        | pm # _ \<Rightarrow>
            let paymentMethodId = pm_id pm in
            await (paymentIntents_create env
              \<lparr>pic_amount = amountInCents, pic_currency = ''eur'', pic_customer = customerId,
               pic_payment_method = paymentMethodId, pic_off_session = True, pic_confirm = True,
               pic_description = description\<rparr>) (\<lambda>intent.
            resolve \<lparr>paymentIntentId = pi_id intent\<rparr>)))
       (\<lambda>err. effect
          (logger_error env
             (''Erreur lors du pr'' @ e_acute @ ''l'' @ e_grave @ ''vement pour le client '' @ customerId) err)
          (if err_code err = Some ''authentication_required'' \<or> err_code err = Some ''card_declined''
           then throw (BadRequestException
             (''Paiement '' @ e_acute @ ''chou'' @ e_acute @ '' : '' @ err_message err))
           else throw (BadRequestException
             (''Erreur lors du pr'' @ e_acute @ ''l'' @ e_grave @ ''vement Stripe''))))"

subsection \<open>getTotalRevenue\<close>

text \<open>
  The \<^verbatim>\<open>while (hasMore)\<close> loop, entered with \<^verbatim>\<open>hasMore = true\<close>. Nothing bounds the
  number of pages, so the loop is a partial function: \<open>None\<close> is a run that never ends.
  A page that announces more but holds no charge makes the read of its last element's
  \<^verbatim>\<open>id\<close> throw.
\<close>

definition revenue_step :: "charge \<Rightarrow> number \<Rightarrow> number" where
  "revenue_step charge totalAmount =
     (if ch_paid charge \<and> \<not> ch_refunded charge
      then num_add totalAmount (case ch_amount charge of None \<Rightarrow> Num 0 | Some a \<Rightarrow> a)
      else totalAmount)"

partial_function (option) getTotalRevenue_loop ::
    "'s stripe_env \<Rightarrow> int \<Rightarrow> int \<Rightarrow> string option \<Rightarrow> number \<Rightarrow> 's
       \<Rightarrow> ((exn + number) \<times> 's) option" where
  "getTotalRevenue_loop env startDate endDate startingAfter totalAmount s =
     (case charges_list env
        \<lparr>cl_created = Some (startDate, endDate), cl_payment_intent = None, cl_limit = 100,
         cl_starting_after = startingAfter\<rparr> s of
        (Inl err, s') \<Rightarrow> Some (Inl err, s')
      | (Inr chargesPage, s') \<Rightarrow>
          (let totalAmount' = fold revenue_step (page_data chargesPage) totalAmount in
           if has_more chargesPage
           then (if page_data chargesPage = []
                 then Some (Inl (TypeError ''Cannot read properties of undefined (reading 'id')''), s')
                 else getTotalRevenue_loop env startDate endDate
                        (Some (ch_id (last (page_data chargesPage)))) totalAmount' s')
           else Some (Inr totalAmount', s')))"

definition getTotalRevenue ::
    "'s stripe_env \<Rightarrow> int \<Rightarrow> int \<Rightarrow> 's \<Rightarrow> ((exn + number) \<times> 's) option" where
  "getTotalRevenue env startDate endDate s =
     (case getTotalRevenue_loop env startDate endDate None (Num 0) s of
        None \<Rightarrow> None
      | Some (Inl err, s') \<Rightarrow> Some (Inl err, s')
      | Some (Inr totalAmount, s') \<Rightarrow> Some (Inr (num_div totalAmount (Num 100)), s'))"

subsection \<open>getPaymentStats\<close>

text \<open>
  The lengths \<^verbatim>\<open>payments.length\<close>, \<^verbatim>\<open>successful.length\<close> and \<^verbatim>\<open>refundedIntents.size\<close>
  are natural numbers, held exactly by a double.
  \<^verbatim>\<open>refundedIntents\<close> is a \<^verbatim>\<open>Set<string>\<close>: a list without repetition, in insertion
  order (the loop variable \<^verbatim>\<open>pi\<close> of the source is \<open>intent\<close> here).
  \<^verbatim>\<open>methodStats\<close> is an object used as a dictionary: a list of keys and values in
  insertion order (the payment-method types of the platform are identifiers such as
  \<^verbatim>\<open>card\<close>, never array indices or property names of \<^verbatim>\<open>Object.prototype\<close>, so
  the object holds the keys the loop stored, in insertion order).
\<close>

definition Set_add :: "string \<Rightarrow> string list \<Rightarrow> string list" where
  "Set_add x xs = (if x \<in> set xs then xs else xs @ [x])"

fun refundedIntents_loop ::
    "'s stripe_env \<Rightarrow> payment_intent list \<Rightarrow> string list \<Rightarrow> ('s, string list) promise" where
  "refundedIntents_loop env [] refundedIntents = resolve refundedIntents"
| "refundedIntents_loop env (intent # payments) refundedIntents =
     await (charges_list env
       \<lparr>cl_created = None, cl_payment_intent = Some (pi_id intent), cl_limit = 100,
        cl_starting_after = None\<rparr>) (\<lambda>chargesPage.
     refundedIntents_loop env payments
       (if list_ex (\<lambda>c. ch_refunded c \<or> num_gt (ch_amount_refunded c) (Num 0)) (page_data chargesPage)
        then Set_add (pi_id intent) refundedIntents
        else refundedIntents))"

record method_stat =
  ms_count :: nat
  ms_value :: number

fun obj_get :: "(string \<times> 'v) list \<Rightarrow> string \<Rightarrow> 'v option" where
  "obj_get [] k = None"
| "obj_get ((k', v) # obj) k = (if k' = k then Some v else obj_get obj k)"

fun obj_set :: "string \<Rightarrow> 'v \<Rightarrow> (string \<times> 'v) list \<Rightarrow> (string \<times> 'v) list" where
  "obj_set k v [] = [(k, v)]"
| "obj_set k v ((k', v') # obj) = (if k' = k then (k, v) # obj else (k', v') # obj_set k v obj)"

text \<open>\<^verbatim>\<open>obj[k].field += d\<close>: the value stored under \<open>k\<close> is changed in place.\<close>

fun obj_modify :: "string \<Rightarrow> ('v \<Rightarrow> 'v) \<Rightarrow> (string \<times> 'v) list \<Rightarrow> (string \<times> 'v) list" where
  "obj_modify k f [] = []"
| "obj_modify k f ((k', v') # obj) = (if k' = k then (k', f v') # obj else (k', v') # obj_modify k f obj)"

text \<open>
  The body of the loop over the successful intents. \<^verbatim>\<open>count\<close> is kept as a natural
  number: it never exceeds the length of an array, far below \<open>2 ^ 53\<close>, where adding 1 to
  a double is exact.
\<close>

definition methodStats_step ::
    "payment_intent \<Rightarrow> (string \<times> method_stat) list \<times> number
       \<Rightarrow> (string \<times> method_stat) list \<times> number" where
  "methodStats_step intent acc =
     (case acc of (methodStats, sumAmounts) \<Rightarrow>
        let method = (case pi_payment_method_types intent of [] \<Rightarrow> ''unknown'' | m # _ \<Rightarrow> m);
            amountEuro =
              num_div (case pi_amount_received intent of None \<Rightarrow> Num 0 | Some a \<Rightarrow> a) (Num 100);
            sumAmounts = num_add sumAmounts amountEuro;
            methodStats =
              (if obj_get methodStats method = None
               then obj_set method \<lparr>ms_count = 0, ms_value = Num 0\<rparr> methodStats
               else methodStats);
            methodStats = obj_modify method (\<lambda>st. st\<lparr>ms_count := ms_count st + 1\<rparr>) methodStats;
            methodStats =
              obj_modify method (\<lambda>st. st\<lparr>ms_value := num_add (ms_value st) amountEuro\<rparr>) methodStats
        in (methodStats, sumAmounts))"

record by_method =
  bm_method :: string
  bm_count :: nat
  bm_value :: number

record payment_stats =
  successRate :: number
  averageValue :: number
  refundRate :: number
  byMethod :: "by_method list"

definition getPaymentStats :: "'s stripe_env \<Rightarrow> ('s, payment_stats) promise" where
  "getPaymentStats env =
     await (paymentIntents_list env 100) (\<lambda>paymentsPage.
     let payments = page_data paymentsPage;
         totalCount = length payments;
         successful = filter (\<lambda>p. pi_status p = ''succeeded'') payments
     in
     await (refundedIntents_loop env payments []) (\<lambda>refundedIntents.
     case fold methodStats_step successful ([], Num 0) of (methodStats, sumAmounts) \<Rightarrow>
     let avgValue =
           (if length successful > 0
            then num_div sumAmounts (Num (of_nat (length successful))) else Num 0);
         successRate =
           (if totalCount > 0
            then num_mul (num_div (Num (of_nat (length successful))) (Num (of_nat totalCount)))
                   (Num 100)
            else Num 0);
         refundRate =
           (if totalCount > 0
            then num_mul (num_div (Num (of_nat (length refundedIntents))) (Num (of_nat totalCount)))
                   (Num 100)
            else Num 0)
     in resolve
       \<lparr>successRate = successRate, averageValue = avgValue, refundRate = refundRate,
        byMethod = map (\<lambda>(method, stats).
          \<lparr>bm_method = method, bm_count = ms_count stats, bm_value = ms_value stats\<rparr>) methodStats\<rparr>))"

text \<open>
  Shorthand for the two local values of the loop: the method a successful intent is filed
  under and its amount in euros, as the loop computes them.
\<close>

abbreviation declared_method :: "payment_intent \<Rightarrow> string" where
  "declared_method intent \<equiv> (case pi_payment_method_types intent of [] \<Rightarrow> ''unknown'' | m # _ \<Rightarrow> m)"

abbreviation received_euros :: "payment_intent \<Rightarrow> number" where
  "received_euros intent \<equiv>
     num_div (case pi_amount_received intent of None \<Rightarrow> Num 0 | Some a \<Rightarrow> a) (Num 100)"

subsection \<open>getStripeAccountStatus\<close>

record account_status =
  isValid :: bool
  isEnabled :: bool
  needsIdCard :: bool

definition getStripeAccountStatus :: "'s stripe_env \<Rightarrow> string \<Rightarrow> ('s, account_status) promise" where
  "getStripeAccountStatus env stripeAccountId =
     try_catch
       (await (accounts_retrieve env stripeAccountId) (\<lambda>account.
        let isValid = (details_submitted account = True);
            isEnabled = (charges_enabled account = True \<and> payouts_enabled account = True);
            needsIdCard =
              (case acct_requirements account of
                 None \<Rightarrow> False
               | Some r \<Rightarrow>
                   (case currently_due r of
                      None \<Rightarrow> False
                    | Some due \<Rightarrow> list_ex (\<lambda>req. str_includes req ''verification.document'') due))
        in resolve \<lparr>isValid = isValid, isEnabled = isEnabled, needsIdCard = needsIdCard\<rparr>))
       (\<lambda>err. effect
          (logger_error env
             (''Erreur lors de la r'' @ e_acute @ ''cup'' @ e_acute @ ''ration du statut du compte ''
                @ stripeAccountId) err)
          (resolve \<lparr>isValid = False, isEnabled = False, needsIdCard = False\<rparr>))"

subsection \<open>transferToConnectedAccount\<close>


subsection \<open>handleWebhook (stripe.controller.ts)\<close>

record request =
  rawBody :: string
  stripe_signature :: "string option"

record webhook_ack =
  received :: bool

definition handleWebhook :: "'s stripe_env \<Rightarrow> request \<Rightarrow> ('s, webhook_ack) promise" where
  "handleWebhook env req =
     (let rawBody = rawBody req;
          sig = stripe_signature req
      in
      await
        (try_catch
           (\<lambda>s. webhooks_constructEvent env rawBody sig
                  (config_get env ''STRIPE_WEBHOOK_SECRET'' s) s)
           (\<lambda>err. throw (BadRequestException (''Signature invalide : '' @ err_message err))))
        (\<lambda>event.
           effect
             (if ev_type event = ''invoice.payment_succeeded''
                then logger_log env (''Invoice pay'' @ e_acute @ ''e : traiter...'')
              else if ev_type event = ''payment_intent.succeeded''
                then logger_log env (''Paiement r'' @ e_acute @ ''ussi : traiter...'')
              else if ev_type event = ''charge.refunded''
                then logger_log env (''Charge rembours'' @ e_acute @ ''e : traitement'' @ hellip)
              else logger_log env
                (E_acute @ ''v'' @ e_acute @ ''nement non g'' @ e_acute @ ''r'' @ e_acute @ '' : ''
                   @ ev_type event))
             (resolve \<lparr>received = True\<rparr>)))"

section \<open>What the platform serves to a traversal\<close>

text \<open>
  \<open>pages_served env startDate endDate cursor s pages s'\<close>: asked for the charges created
  in the window, starting after \<open>cursor\<close> in the world \<open>s\<close>, and asked again after the
  last charge of each page that announces more, the platform answers with \<open>pages\<close>, the
  last of which announces no more, and leaves the world \<open>s'\<close>.
\<close>

inductive pages_served ::
    "'s stripe_env \<Rightarrow> int \<Rightarrow> int \<Rightarrow> string option \<Rightarrow> 's \<Rightarrow> charge list_page list \<Rightarrow> 's \<Rightarrow> bool"
    for env :: "'s stripe_env" and startDate :: int and endDate :: int where
  last_page:
    "charges_list env
       \<lparr>cl_created = Some (startDate, endDate), cl_payment_intent = None, cl_limit = 100,
        cl_starting_after = cursor\<rparr> s = (Inr page, s')
     \<Longrightarrow> \<not> has_more page
     \<Longrightarrow> pages_served env startDate endDate cursor s [page] s'"
| next_page:
    "charges_list env
       \<lparr>cl_created = Some (startDate, endDate), cl_payment_intent = None, cl_limit = 100,
        cl_starting_after = cursor\<rparr> s = (Inr page, s1)
     \<Longrightarrow> has_more page
     \<Longrightarrow> page_data page \<noteq> []
     \<Longrightarrow> pages_served env startDate endDate (Some (ch_id (last (page_data page)))) s1 pages s'
     \<Longrightarrow> pages_served env startDate endDate cursor s (page # pages) s'"

code_pred (modes: i \<Rightarrow> i \<Rightarrow> i \<Rightarrow> i \<Rightarrow> i \<Rightarrow> o \<Rightarrow> o \<Rightarrow> bool) pages_served .

text \<open>
  \<open>charges_served env payments s pages s'\<close>: asked in the world \<open>s\<close> for the charges of
  each payment intent of \<open>payments\<close> in turn, the platform answers with \<open>pages\<close>, one
  page for each intent, and leaves the world \<open>s'\<close>.
\<close>

inductive charges_served ::
    "'s stripe_env \<Rightarrow> payment_intent list \<Rightarrow> 's \<Rightarrow> charge list_page list \<Rightarrow> 's \<Rightarrow> bool"
    for env :: "'s stripe_env" where
  no_intent:
    "charges_served env [] s [] s"
| next_intent:
    "charges_list env
       \<lparr>cl_created = None, cl_payment_intent = Some (pi_id intent), cl_limit = 100,
        cl_starting_after = None\<rparr> s = (Inr page, s1)
     \<Longrightarrow> charges_served env payments s1 pages s'
     \<Longrightarrow> charges_served env (intent # payments) s (page # pages) s'"

code_pred (modes: i \<Rightarrow> i \<Rightarrow> i \<Rightarrow> o \<Rightarrow> o \<Rightarrow> bool) charges_served .

section \<open>Test platforms\<close>

text \<open>
  A concrete world for evaluating the service: a clock, the cards attached to customers
  (customer id and card id, the newest first) and the trace of the collaborator calls made
  so far. Every call of \<open>offline_env\<close> is refused by the platform; the
  environments below replace the calls a scenario needs.
\<close>

record world =
  w_now :: int
  w_cards :: "(string \<times> string) list"
  w_trace :: "string list"

definition trace :: "string \<Rightarrow> world \<Rightarrow> world" where
  "trace x w = w\<lparr>w_trace := w_trace w @ [x]\<rparr>"

definition refuse :: "string \<Rightarrow> (world, 'a) promise" where
  "refuse x w = (Inl (StripeError None (''no such '' @ x)), trace x w)"

definition answer :: "string \<Rightarrow> 'a \<Rightarrow> (world, 'a) promise" where
  "answer x r w = (Inr r, trace x w)"

definition offline_env :: "world stripe_env" where
  "offline_env =
     \<lparr>paymentMethods_list = (\<lambda>q. refuse ''paymentMethods.list''),
      paymentMethods_attach = (\<lambda>pm c. refuse ''paymentMethods.attach''),
      customers_update = (\<lambda>c pm. refuse ''customers.update''),
      subscriptions_create = (\<lambda>q. refuse ''subscriptions.create''),
      paymentIntents_create = (\<lambda>q. refuse ''paymentIntents.create''),
      paymentIntents_list = (\<lambda>n. refuse ''paymentIntents.list''),
      products_create = (\<lambda>n. refuse ''products.create''),
      prices_create = (\<lambda>q. refuse ''prices.create''),
      charges_list = (\<lambda>q. refuse ''charges.list''),
      accounts_retrieve = (\<lambda>a. refuse ''accounts.retrieve''),
      transfers_create = (\<lambda>q. refuse ''transfers.create''),
      webhooks_constructEvent = (\<lambda>b sg k. refuse ''webhooks.constructEvent''),
      config_get = (\<lambda>k w. None),
      Date_now = w_now,
      logger_log = (\<lambda>m. trace ''log''),
      logger_error = (\<lambda>m e. trace ''error''),
      logger_warn = (\<lambda>m e. trace ''warn'')\<rparr>"

definition w0 :: world where
  "w0 = \<lparr>w_now = 1700000000123, w_cards = [], w_trace = []\<rparr>"

definition price_env :: "world stripe_env" where
  "price_env = offline_env
     \<lparr>products_create := (\<lambda>n. answer ''products.create'' \<lparr>prod_id = ''prod_1''\<rparr>),
      prices_create := (\<lambda>q. answer ''prices.create''
        \<lparr>price_id = ''price_1'', price_unit_amount = prc_unit_amount q\<rparr>)\<rparr>"

definition account_env :: "world stripe_env" where
  "account_env = offline_env
     \<lparr>accounts_retrieve := (\<lambda>a.
        if a = ''acct_1''
        then answer ''accounts.retrieve''
          \<lparr>details_submitted = True, charges_enabled = True, payouts_enabled = False,
           acct_requirements = Some \<lparr>currently_due =
             Some [''external_account'', ''individual.verification.document.front'']\<rparr>\<rparr>
        else refuse ''accounts.retrieve'')\<rparr>"



text \<open>
  A library that accepts the signature \<open>sig_ok\<close> for any body and reads the event type
  from the body.
\<close>

definition webhook_env :: "world stripe_env" where
  "webhook_env = offline_env
     \<lparr>webhooks_constructEvent := (\<lambda>body sg secret.
        if sg = Some ''sig_ok'' \<and> secret = Some ''whsec_1''
        then answer ''webhooks.constructEvent'' \<lparr>ev_type = body\<rparr>
        else (\<lambda>w. (Inl (StripeError None ''No signatures found matching the expected signature for payload''),
                    trace ''webhooks.constructEvent'' w))),
      config_get := (\<lambda>k w. if k = ''STRIPE_WEBHOOK_SECRET'' then Some ''whsec_1'' else None)\<rparr>"

definition subscription_env :: "world stripe_env" where
  "subscription_env = offline_env
     \<lparr>subscriptions_create := (\<lambda>q.
        if sc_items q = [''price_1'']
        then (case sc_trial_end q of
                None \<Rightarrow> answer ''subscriptions.create'' \<lparr>sub_id = ''sub_active''\<rparr>
              | Some t \<Rightarrow> answer (if t = 1800000000 then ''subscriptions.create trial_end=1800000000''
                                  else ''subscriptions.create trial_end'') \<lparr>sub_id = ''sub_trialing''\<rparr>)
        else refuse ''subscriptions.create'')\<rparr>"

text \<open>
  A platform that keeps cards: attaching \<open>pm_1\<close> or \<open>pm_2\<close> succeeds and is remembered,
  listing returns the customer's cards up to the limit, and a payment above 1000 euros is
  declined by the card.
\<close>

definition cards_env :: "world stripe_env" where
  "cards_env = offline_env
     \<lparr>paymentMethods_list := (\<lambda>q w.
        let mine = filter (\<lambda>(c, pm). c = pml_customer q) (w_cards w) in
        answer ''paymentMethods.list''
          \<lparr>page_data = map (\<lambda>(c, pm). \<lparr>pm_id = pm\<rparr>) (take (pml_limit q) mine),
           has_more = (pml_limit q < length mine)\<rparr> w),
      paymentMethods_attach := (\<lambda>pm c w.
        if pm = ''pm_1'' \<or> pm = ''pm_2''
        then answer ''paymentMethods.attach'' \<lparr>pm_id = pm\<rparr> (w\<lparr>w_cards := (c, pm) # w_cards w\<rparr>)
        else refuse ''paymentMethods.attach'' w),
      customers_update := (\<lambda>c pm. answer ''customers.update'' \<lparr>cus_id = c\<rparr>),
      paymentIntents_create := (\<lambda>q.
        if 100000 < pic_amount q
        then (\<lambda>w. (Inl (StripeError (Some ''card_declined'') ''Your card was declined.''),
                    trace ''paymentIntents.create'' w))
        else answer ''paymentIntents.create''
          \<lparr>pi_id = ''pi_1'', pi_status = ''succeeded'', pi_payment_method_types = [''card''],
           pi_amount_received = Some (Num (of_int (pic_amount q)))\<rparr>)\<rparr>"

definition w1 :: world where
  "w1 = \<lparr>w_now = 1700000000123, w_cards = [(''cus_1'', ''pm_1'')], w_trace = []\<rparr>"

text \<open>Charges of one window on two pages: paid, refunded, unpaid, paid.\<close>

definition revenue_env :: "world stripe_env" where
  "revenue_env = offline_env
     \<lparr>charges_list := (\<lambda>q.
        if cl_created q = Some (1700000000, 1700086400) \<and> cl_starting_after q = None
        then answer ''charges.list''
          \<lparr>page_data =
             [\<lparr>ch_id = ''ch_1'', ch_paid = True, ch_refunded = False, ch_amount = Some (Num 1250),
               ch_amount_refunded = Num 0\<rparr>,
              \<lparr>ch_id = ''ch_2'', ch_paid = True, ch_refunded = True, ch_amount = Some (Num 900),
               ch_amount_refunded = Num 900\<rparr>],
           has_more = True\<rparr>
        else if cl_created q = Some (1700000000, 1700086400) \<and> cl_starting_after q = Some ''ch_2''
        then answer ''charges.list''
          \<lparr>page_data =
             [\<lparr>ch_id = ''ch_3'', ch_paid = False, ch_refunded = False, ch_amount = Some (Num 400),
               ch_amount_refunded = Num 0\<rparr>,
              \<lparr>ch_id = ''ch_4'', ch_paid = True, ch_refunded = False, ch_amount = Some (Num 2599),
               ch_amount_refunded = Num 0\<rparr>],
           has_more = False\<rparr>
        else refuse ''charges.list'')\<rparr>"

text \<open>
  One page whose running sum passes \<open>2 ^ 53\<close>: a charge of \<open>2 ^ 53\<close> minor units and two
  charges of 1.
\<close>

definition huge_charges :: "charge list" where
  "huge_charges =
     [\<lparr>ch_id = ''ch_1'', ch_paid = True, ch_refunded = False, ch_amount = Some (Num 9007199254740992),
       ch_amount_refunded = Num 0\<rparr>,
      \<lparr>ch_id = ''ch_2'', ch_paid = True, ch_refunded = False, ch_amount = Some (Num 1),
       ch_amount_refunded = Num 0\<rparr>,
      \<lparr>ch_id = ''ch_3'', ch_paid = True, ch_refunded = False, ch_amount = Some (Num 1),
       ch_amount_refunded = Num 0\<rparr>]"

definition huge_env :: "world stripe_env" where
  "huge_env = offline_env
     \<lparr>charges_list := (\<lambda>q. answer ''charges.list'' \<lparr>page_data = huge_charges, has_more = False\<rparr>)\<rparr>"

text \<open>A platform that always announces more charges and never holds one.\<close>

definition endless_env :: "world stripe_env" where
  "endless_env = offline_env
     \<lparr>charges_list := (\<lambda>q. answer ''charges.list'' \<lparr>page_data = [], has_more = True\<rparr>)\<rparr>"

text \<open>
  Five payment attempts: a card payment, a SEPA payment refunded in part, a failed card
  payment, a card payment with two refunded charges, and a payment that declares no
  method and no received amount.
\<close>

definition stats_payments :: "payment_intent list" where
  "stats_payments =
     [\<lparr>pi_id = ''pi_1'', pi_status = ''succeeded'', pi_payment_method_types = [''card''],
       pi_amount_received = Some (Num 2000)\<rparr>,
      \<lparr>pi_id = ''pi_2'', pi_status = ''succeeded'',
       pi_payment_method_types = [''sepa_debit'', ''card''], pi_amount_received = Some (Num 1000)\<rparr>,
      \<lparr>pi_id = ''pi_3'', pi_status = ''requires_payment_method'',
       pi_payment_method_types = [''card''], pi_amount_received = Some (Num 0)\<rparr>,
      \<lparr>pi_id = ''pi_4'', pi_status = ''succeeded'', pi_payment_method_types = [''card''],
       pi_amount_received = Some (Num 500)\<rparr>,
      \<lparr>pi_id = ''pi_5'', pi_status = ''succeeded'', pi_payment_method_types = [],
       pi_amount_received = None\<rparr>]"

definition stats_charges :: "string option \<Rightarrow> charge list" where
  "stats_charges intent_id =
     (if intent_id = Some ''pi_1''
      then [\<lparr>ch_id = ''ch_1'', ch_paid = True, ch_refunded = False, ch_amount = Some (Num 2000),
             ch_amount_refunded = Num 0\<rparr>]
      else if intent_id = Some ''pi_2''
      then [\<lparr>ch_id = ''ch_2'', ch_paid = True, ch_refunded = False, ch_amount = Some (Num 1000),
             ch_amount_refunded = Num 300\<rparr>]
      else if intent_id = Some ''pi_4''
      then [\<lparr>ch_id = ''ch_5'', ch_paid = True, ch_refunded = True, ch_amount = Some (Num 200),
             ch_amount_refunded = Num 200\<rparr>,
            \<lparr>ch_id = ''ch_4'', ch_paid = True, ch_refunded = True, ch_amount = Some (Num 300),
             ch_amount_refunded = Num 300\<rparr>]
      else [])"

definition stats_env :: "world stripe_env" where
  "stats_env = offline_env
     \<lparr>paymentIntents_list := (\<lambda>n. answer ''paymentIntents.list''
        \<lparr>page_data = stats_payments, has_more = True\<rparr>),
      charges_list := (\<lambda>q. answer ''charges.list''
        \<lparr>page_data = stats_charges (cl_payment_intent q), has_more = False\<rparr>)\<rparr>"

text \<open>
  Three payment attempts: card payments of 10 and 20 cents, the second refunded in part,
  and a failed one.
\<close>

definition cents_payments :: "payment_intent list" where
  "cents_payments =
     [\<lparr>pi_id = ''pi_1'', pi_status = ''succeeded'', pi_payment_method_types = [''card''],
       pi_amount_received = Some (Num 10)\<rparr>,
      \<lparr>pi_id = ''pi_2'', pi_status = ''succeeded'', pi_payment_method_types = [''card''],
       pi_amount_received = Some (Num 20)\<rparr>,
      \<lparr>pi_id = ''pi_3'', pi_status = ''requires_payment_method'',
       pi_payment_method_types = [''card''], pi_amount_received = Some (Num 0)\<rparr>]"

definition cents_env :: "world stripe_env" where
  "cents_env = offline_env
     \<lparr>paymentIntents_list := (\<lambda>n. answer ''paymentIntents.list''
        \<lparr>page_data = cents_payments, has_more = False\<rparr>),
      charges_list := (\<lambda>q. answer ''charges.list''
        \<lparr>page_data = stats_charges (cl_payment_intent q), has_more = False\<rparr>)\<rparr>"

definition no_payments_env :: "world stripe_env" where
  "no_payments_env = offline_env
     \<lparr>paymentIntents_list := (\<lambda>n. answer ''paymentIntents.list'' \<lparr>page_data = [], has_more = False\<rparr>)\<rparr>"

section \<open>Properties\<close>

subsection \<open>JavaScript numbers\<close>

lemma floor_rat_numeral_div [simp]:
  "\<lfloor>(numeral a :: rat) / numeral b\<rfloor> = numeral a div numeral b"
  by (metis floor_divide_of_int_eq of_int_numeral)

lemma ceiling_rat_numeral_div [simp]:
  "\<lceil>(numeral a :: rat) / numeral b\<rceil> = - (- numeral a div numeral b)"
  by (metis ceiling_def floor_divide_of_int_eq minus_divide_left of_int_minus of_int_numeral)

lemma bitlen_rec: "0 < a \<Longrightarrow> bitlen a = bitlen (a div 2) + 1"
  by (simp add: bitlen_def compute_floorlog [of 2 "nat a"] nat_div_distrib)

text \<open>The rules that evaluate \<open>fl\<close> at a numeral.\<close>

lemmas fl_eval = fl_def fl_pos_def ilog2_def bitlen_rec round_half_even_def Let_def

text \<open>\<open>ilog2 x\<close> is the binary exponent of a positive \<open>x\<close>, and the only one.\<close>

lemma ilog2_bounds:
  assumes "0 < x"
  shows "2 powi ilog2 x \<le> x" and "x < 2 powi (ilog2 x + 1)"
proof -
  show "2 powi ilog2 x \<le> x"
  proof (cases "1 \<le> x")
    case True
    then have f: "0 < \<lfloor>x\<rfloor>" by simp
    from bitlen_bounds [OF f] have "2 ^ nat (bitlen \<lfloor>x\<rfloor> - 1) \<le> \<lfloor>x\<rfloor>" by simp
    then have "(2::rat) ^ nat (bitlen \<lfloor>x\<rfloor> - 1) \<le> of_int \<lfloor>x\<rfloor>"
      by (metis of_int_le_iff of_int_numeral of_int_power)
    then have "(2::rat) ^ nat (bitlen \<lfloor>x\<rfloor> - 1) \<le> x"
      using of_int_floor_le [of x] by (rule order_trans)
    moreover have "1 \<le> bitlen \<lfloor>x\<rfloor>" using f by (simp add: bitlen_alt_def)
    ultimately show ?thesis
      using True by (simp add: ilog2_def power_int_def)
  next
    case False
    define N where "N = \<lceil>1 / x\<rceil>"
    from False assms have y: "1 < 1 / x" by simp
    then have N2: "2 \<le> N" unfolding N_def by linarith
    then have p: "0 < N - 1" by simp
    from bitlen_bounds [OF p] have "N - 1 < 2 ^ nat (bitlen (N - 1))" by simp
    then have "N \<le> 2 ^ nat (bitlen (N - 1))" by simp
    then have "(of_int N :: rat) \<le> 2 ^ nat (bitlen (N - 1))"
      by (metis of_int_le_iff of_int_numeral of_int_power)
    moreover have "1 / x \<le> of_int N" unfolding N_def by simp
    ultimately have "1 / x \<le> 2 ^ nat (bitlen (N - 1))" by linarith
    then have "1 / 2 ^ nat (bitlen (N - 1)) \<le> x"
      using assms by (simp add: field_simps)
    moreover have "1 \<le> bitlen (N - 1)" using p by (simp add: bitlen_alt_def)
    ultimately show ?thesis
      using False by (simp add: ilog2_def power_int_def N_def field_simps)
  qed
  show "x < 2 powi (ilog2 x + 1)"
  proof (cases "1 \<le> x")
    case True
    then have f: "0 < \<lfloor>x\<rfloor>" by simp
    from bitlen_bounds [OF f] have "\<lfloor>x\<rfloor> < 2 ^ nat (bitlen \<lfloor>x\<rfloor>)" by simp
    then have "\<lfloor>x\<rfloor> + 1 \<le> 2 ^ nat (bitlen \<lfloor>x\<rfloor>)" by simp
    then have "(of_int (\<lfloor>x\<rfloor> + 1) :: rat) \<le> 2 ^ nat (bitlen \<lfloor>x\<rfloor>)"
      by (metis of_int_le_iff of_int_numeral of_int_power)
    moreover have "x < of_int (\<lfloor>x\<rfloor> + 1)" by linarith
    ultimately have "x < 2 ^ nat (bitlen \<lfloor>x\<rfloor>)" by linarith
    moreover have "0 \<le> bitlen \<lfloor>x\<rfloor>" by (rule bitlen_nonneg)
    ultimately show ?thesis
      using True by (simp add: ilog2_def power_int_def)
  next
    case False
    define N where "N = \<lceil>1 / x\<rceil>"
    define k where "k = bitlen (N - 1)"
    from False assms have y: "1 < 1 / x" by simp
    then have N2: "2 \<le> N" unfolding N_def by linarith
    then have p: "0 < N - 1" by simp
    have k1: "1 \<le> k" using p by (simp add: k_def bitlen_alt_def)
    from bitlen_bounds [OF p] have "2 ^ nat (k - 1) \<le> N - 1" by (simp add: k_def)
    then have "(2::rat) ^ nat (k - 1) \<le> of_int (N - 1)"
      by (metis of_int_le_iff of_int_numeral of_int_power)
    moreover have "of_int (N - 1) < 1 / x" unfolding N_def by linarith
    ultimately have "(2::rat) ^ nat (k - 1) < 1 / x" by linarith
    then have "x < 1 / 2 ^ nat (k - 1)"
      using assms by (simp add: field_simps)
    moreover have "ilog2 x + 1 = - (k - 1)"
      using False by (simp add: ilog2_def k_def N_def)
    ultimately show ?thesis
      using k1 False by (auto simp: power_int_def power_one_over)
  qed
qed

lemma ilog2_unique:
  assumes "0 < x" "2 powi e \<le> x" "x < 2 powi (e + 1)"
  shows "ilog2 x = e"
proof (rule ccontr)
  assume ne: "ilog2 x \<noteq> e"
  note b = ilog2_bounds [OF assms(1)]
  show False
  proof (cases "ilog2 x < e")
    case True
    then have "(2::rat) powi (ilog2 x + 1) \<le> 2 powi e"
      by (intro power_int_increasing) auto
    with b(2) assms(2) show False by linarith
  next
    case False
    with ne have "e + 1 \<le> ilog2 x" by simp
    then have "(2::rat) powi (e + 1) \<le> 2 powi ilog2 x"
      by (intro power_int_increasing) auto
    with b(1) assms(3) show False by linarith
  qed
qed

text \<open>Rounding a positive number whose binary exponent is known.\<close>

lemma fl_pos_eval:
  assumes "0 < x" "2 powi e \<le> x" "x < 2 powi (e + 1)"
  shows "fl_pos x =
     (let q = max (e - 52) (- 1074);
          r = of_int (round_half_even (x / 2 powi q)) * 2 powi q
      in if 2 powi 1024 \<le> r then PosInfinity else Num r)"
  by (simp add: fl_pos_def ilog2_unique [OF assms])

lemma round_half_even_of_int [simp]: "round_half_even (of_int k) = k"
  by (simp add: round_half_even_def)

text \<open>A positive multiple of its own unit in the last place is a double: rounding keeps it.\<close>

lemma fl_pos_exact:
  assumes "0 < x" and "x = of_int k * 2 powi max (ilog2 x - 52) (- 1074)" and "x < 2 powi 1024"
  shows "fl_pos x = Num x"
proof -
  have "x / 2 powi max (ilog2 x - 52) (- 1074) = of_int k"
    using assms(2) by (metis nonzero_mult_div_cancel_right power_int_eq_0_iff zero_neq_numeral)
  then show ?thesis
    using assms(2,3) by (simp add: fl_pos_def Let_def)
qed

text \<open>The integers up to \<open>2 ^ 53\<close> in magnitude are doubles.\<close>

lemma fl_pos_of_int:
  assumes "0 < n" "n \<le> 2 ^ 53"
  shows "fl_pos (of_int n) = Num (of_int n)"
proof -
  define x :: rat where "x = of_int n"
  define e where "e = ilog2 x"
  have x0: "0 < x" and x1: "1 \<le> x" and x53: "x \<le> 2 ^ 53"
    using assms by (simp_all add: x_def)
  note b = ilog2_bounds [OF x0, folded e_def]
  have e0: "0 \<le> e"
  proof (rule ccontr)
    assume "\<not> 0 \<le> e"
    then have "(2::rat) powi (e + 1) \<le> 2 powi 0" by (intro power_int_increasing) auto
    with b(2) x1 show False by simp
  qed
  have e53: "e \<le> 53"
  proof (rule ccontr)
    assume "\<not> e \<le> 53"
    then have "(2::rat) powi 54 \<le> 2 powi e" by (intro power_int_increasing) auto
    with b(1) x53 show False by simp
  qed
  have big: "x < 2 powi 1024"
  proof -
    have "(2::rat) powi 53 < 2 powi 1024" by (intro power_int_strict_increasing) auto
    with x53 show ?thesis by simp
  qed
  have "\<exists>k. x = of_int k * 2 powi max (e - 52) (- 1074)"
  proof (cases "e \<le> 52")
    case True
    then have m: "max (e - 52) (- 1074) = - (52 - e)" using e0 by simp
    have "x = of_int (n * 2 ^ nat (52 - e)) * 2 powi (- (52 - e))"
      using True by (simp add: x_def power_int_minus power_int_def power_one_over)
    then show ?thesis unfolding m by blast
  next
    case False
    with e53 have e: "e = 53" by simp
    with b(1) x53 have "x = 2 ^ 53" by simp
    then have "x = of_int (2 ^ 52) * 2 powi max (e - 52) (- 1074)" using e by simp
    then show ?thesis by blast
  qed
  then obtain k where "x = of_int k * 2 powi max (ilog2 x - 52) (- 1074)"
    unfolding e_def by blast
  from fl_pos_exact [OF x0 this big] show ?thesis by (simp add: x_def)
qed

lemma fl_of_int:
  assumes "\<bar>n\<bar> \<le> 2 ^ 53"
  shows "fl (of_int n) = Num (of_int n)"
proof -
  consider "n = 0" | "0 < n" | "n < 0" by linarith
  then show ?thesis
  proof cases
    case 1
    then show ?thesis by (simp add: fl_def)
  next
    case 2
    with assms fl_pos_of_int [of n] show ?thesis by (simp add: fl_def)
  next
    case 3
    with assms fl_pos_of_int [of "- n"] show ?thesis by (simp add: fl_def)
  qed
qed

text \<open>
  \<open>fl\<close> rounds to the nearest double: its finite result is a double, a significand
  below \<open>2 ^ 53\<close> in magnitude times a power of two from \<open>2 powi (- 1074)\<close> to
  \<open>2 powi 971\<close>, and no double is nearer to the argument.
\<close>

lemma round_half_even_cases:
  "round_half_even m = \<lfloor>m\<rfloor> \<and> m - of_int \<lfloor>m\<rfloor> \<le> 1 / 2
   \<or> round_half_even m = \<lfloor>m\<rfloor> + 1 \<and> 1 / 2 \<le> m - of_int \<lfloor>m\<rfloor>"
  by (auto simp: round_half_even_def Let_def)

lemma round_half_even_nearest:
  "\<bar>m - of_int (round_half_even m)\<bar> \<le> \<bar>m - of_int k\<bar>"
proof -
  have f: "of_int \<lfloor>m\<rfloor> \<le> m" "m < of_int \<lfloor>m\<rfloor> + 1"
    by linarith+
  consider "k \<le> \<lfloor>m\<rfloor>" | "\<lfloor>m\<rfloor> + 1 \<le> k" by linarith
  then show ?thesis
  proof cases
    case 1
    then have "(of_int k :: rat) \<le> of_int \<lfloor>m\<rfloor>" by simp
    with f round_half_even_cases [of m] show ?thesis by auto
  next
    case 2
    then have "(of_int \<lfloor>m\<rfloor> :: rat) + 1 \<le> of_int k"
      by (metis of_int_1 of_int_add of_int_le_iff)
    with f round_half_even_cases [of m] show ?thesis by auto
  qed
qed

lemma round_half_even_le: "m \<le> of_int k \<Longrightarrow> round_half_even m \<le> k"
proof -
  assume a: "m \<le> of_int k"
  have f: "of_int \<lfloor>m\<rfloor> \<le> m" by simp
  have 1: "\<lfloor>m\<rfloor> \<le> k" using a by (simp add: floor_le_iff)
  have 2: "\<lfloor>m\<rfloor> + 1 \<le> k" if "1 / 2 \<le> m - of_int \<lfloor>m\<rfloor>"
  proof -
    from that a have "(of_int \<lfloor>m\<rfloor> :: rat) < of_int k" by linarith
    then show ?thesis by simp
  qed
  from round_half_even_cases [of m] 1 2 show ?thesis by auto
qed

lemma round_half_even_ge: "of_int k \<le> m \<Longrightarrow> k \<le> round_half_even m"
proof -
  assume "of_int k \<le> m"
  then have "k \<le> \<lfloor>m\<rfloor>" by (simp add: le_floor_iff)
  with round_half_even_cases [of m] show ?thesis by auto
qed

lemma fl_pos_nearest:
  assumes x: "0 < x" and r: "fl_pos x = Num r"
  shows "\<exists>m q. r = of_int m * 2 powi q \<and> \<bar>m\<bar> < 2 ^ 53 \<and> - 1074 \<le> q \<and> q \<le> 971"
    and "\<bar>m'\<bar> < 2 ^ 53 \<Longrightarrow> - 1074 \<le> q' \<Longrightarrow> \<bar>x - r\<bar> \<le> \<bar>x - of_int m' * 2 powi q'\<bar>"
proof -
  define e where "e = ilog2 x"
  define q where "q = max (e - 52) (- 1074)"
  define u :: rat where "u = 2 powi q"
  define M where "M = round_half_even (x / u)"
  have u0: "0 < u" by (simp add: u_def)
  from r have rM: "r = of_int M * u" and fin: "r < 2 powi 1024"
    by (auto simp: fl_pos_def Let_def e_def q_def u_def M_def split: if_splits)
  note b = ilog2_bounds [OF x, folded e_def]
  have q1074: "- 1074 \<le> q" by (simp add: q_def)
  have u53: "u * 2 ^ 53 = 2 powi (q + 53)"
    by (simp add: u_def power_int_add)
  have "(2::rat) powi (e + 1) \<le> 2 powi (q + 53)"
    by (intro power_int_increasing) (auto simp: q_def)
  with b(2) u53 have "x < u * 2 ^ 53" by simp
  then have xu: "x / u < 2 ^ 53"
    using u0 by (simp add: field_simps)
  have M53: "M \<le> 2 ^ 53"
    unfolding M_def using xu by (intro round_half_even_le) simp
  have M0: "0 \<le> M"
    unfolding M_def using x u0 by (intro round_half_even_ge) simp
  have normal: "2 ^ 52 \<le> M" and ue: "of_int (2 ^ 52) * u = 2 powi e" if "q = e - 52"
  proof -
    show ue: "of_int (2 ^ 52) * u = 2 powi e"
      using that by (simp add: u_def power_int_diff)
    with b(1) have "of_int (2 ^ 52) * u \<le> x" by simp
    then have "of_int (2 ^ 52) \<le> x / u"
      using u0 by (simp add: field_simps)
    then show "2 ^ 52 \<le> M"
      unfolding M_def by (rule round_half_even_ge)
  qed
  have near: "\<bar>x - r\<bar> \<le> \<bar>x - of_int k * u\<bar>" for k
  proof -
    have "\<bar>x - of_int j * u\<bar> = \<bar>x / u - of_int j\<bar> * u" for j
    proof -
      have "x - of_int j * u = (x / u - of_int j) * u"
        using u0 by (simp add: field_simps)
      then show ?thesis
        using u0 by (simp add: abs_mult)
    qed
    then show ?thesis
      unfolding rM M_def using round_half_even_nearest [of "x / u" k] u0
      by (simp add: mult_right_mono)
  qed
  show "\<exists>m q. r = of_int m * 2 powi q \<and> \<bar>m\<bar> < 2 ^ 53 \<and> - 1074 \<le> q \<and> q \<le> 971"
  proof (cases "M = 2 ^ 53")
    case True
    then have r53: "r = 2 powi (q + 53)"
      using rM u53 by (simp add: mult.commute)
    have "q + 53 < 1024"
    proof (rule ccontr)
      assume "\<not> q + 53 < 1024"
      then have "(2::rat) powi 1024 \<le> 2 powi (q + 53)"
        by (intro power_int_increasing) auto
      with fin r53 show False by simp
    qed
    moreover have "r = of_int (2 ^ 52) * 2 powi (q + 1)"
      unfolding r53 by (simp add: power_int_add)
    moreover have "\<bar>2 ^ 52 :: int\<bar> < 2 ^ 53"
      by simp
    ultimately have "r = of_int (2 ^ 52) * 2 powi (q + 1) \<and> \<bar>2 ^ 52 :: int\<bar> < 2 ^ 53
        \<and> - 1074 \<le> q + 1 \<and> q + 1 \<le> 971"
      using q1074 by linarith
    then show ?thesis
      by blast
  next
    case False
    with M53 M0 have m: "\<bar>M\<bar> < 2 ^ 53" by simp
    have "q \<le> 971"
    proof (rule ccontr)
      assume c: "\<not> q \<le> 971"
      then have qe: "q = e - 52" by (simp add: q_def split: if_splits)
      have "(2::rat) powi 972 \<le> u"
        unfolding u_def using c by (intro power_int_increasing) auto
      moreover have "(2::rat) ^ 52 \<le> of_int M"
        using normal [OF qe] by (metis of_int_le_iff of_int_numeral of_int_power)
      ultimately have "(2::rat) ^ 52 * 2 powi 972 \<le> of_int M * u"
        by (intro mult_mono) auto
      moreover have "(2::rat) ^ 52 * 2 powi 972 = 2 powi 1024"
        by (simp add: power_int_add [of 2 52 972, simplified])
      ultimately show False
        using fin rM by simp
    qed
    with m q1074 rM show ?thesis
      unfolding u_def by blast
  qed
  show "\<bar>x - r\<bar> \<le> \<bar>x - of_int m' * 2 powi q'\<bar>" if m': "\<bar>m'\<bar> < 2 ^ 53" and q': "- 1074 \<le> q'"
  proof (cases "q \<le> q'")
    case True
    have "(2::rat) powi q' = 2 powi (q' - q) * u"
      by (simp add: u_def power_int_diff)
    also have "(2::rat) powi (q' - q) = of_int (2 ^ nat (q' - q))"
      using True by (simp add: power_int_def)
    finally have p: "(2::rat) powi q' = of_int (2 ^ nat (q' - q)) * u" .
    have "of_int m' * 2 powi q' = of_int (m' * 2 ^ nat (q' - q)) * u"
      unfolding p by simp
    with near [of "m' * 2 ^ nat (q' - q)"] show ?thesis
      by (simp only:)
  next
    case False
    with q' have qe: "q = e - 52" by (simp add: q_def split: if_splits)
    have "\<bar>of_int m' * (2::rat) powi q'\<bar> = \<bar>of_int m'\<bar> * 2 powi q'"
      by (simp add: abs_mult)
    also have "\<dots> \<le> 2 ^ 53 * 2 powi q'"
    proof (intro mult_right_mono)
      have "\<bar>m'\<bar> \<le> 2 ^ 53" using m' by simp
      then show "\<bar>(of_int m' :: rat)\<bar> \<le> 2 ^ 53"
        by (metis of_int_abs of_int_le_iff of_int_numeral of_int_power)
    qed simp
    also have "\<dots> = 2 powi (q' + 53)"
      by (simp add: power_int_add)
    also have "\<dots> \<le> 2 powi e"
      using False qe by (intro power_int_increasing) auto
    finally have y: "\<bar>of_int m' * (2::rat) powi q'\<bar> \<le> 2 powi e" .
    have strict: "of_int m' * (2::rat) powi q' < 2 powi e"
    proof -
      have "of_int m' * (2::rat) powi q' < 2 ^ 53 * 2 powi q'"
      proof (intro mult_strict_right_mono)
        have "m' < 2 ^ 53" using m' by simp
        then show "(of_int m' :: rat) < 2 ^ 53"
          by (metis of_int_less_iff of_int_numeral of_int_power)
      qed simp
      also have "\<dots> = 2 powi (q' + 53)"
        by (simp add: power_int_add)
      also have "\<dots> \<le> 2 powi e"
        using False qe by (intro power_int_increasing) auto
      finally show ?thesis .
    qed
    from near [of "2 ^ 52"] ue [OF qe] have "\<bar>x - r\<bar> \<le> \<bar>x - 2 powi e\<bar>"
      by simp
    with b(1) strict show ?thesis
      by linarith
  qed
qed

lemma fl_nearest:
  assumes "fl x = Num r"
  shows "\<exists>m q. r = of_int m * 2 powi q \<and> \<bar>m\<bar> < 2 ^ 53 \<and> - 1074 \<le> q \<and> q \<le> 971"
    and "\<bar>m'\<bar> < 2 ^ 53 \<Longrightarrow> - 1074 \<le> q' \<Longrightarrow> \<bar>x - r\<bar> \<le> \<bar>x - of_int m' * 2 powi q'\<bar>"
proof -
  consider "x = 0" | "0 < x" | "x < 0" by linarith
  then have "(\<exists>m q. r = of_int m * 2 powi q \<and> \<bar>m\<bar> < 2 ^ 53 \<and> - 1074 \<le> q \<and> q \<le> 971)
     \<and> (\<bar>m'\<bar> < 2 ^ 53 \<longrightarrow> - 1074 \<le> q' \<longrightarrow> \<bar>x - r\<bar> \<le> \<bar>x - of_int m' * 2 powi q'\<bar>)"
  proof cases
    case 1
    with assms have "r = 0" by (simp add: fl_def)
    moreover have "(0::rat) = of_int 0 * 2 powi 0 \<and> \<bar>0::int\<bar> < 2 ^ 53 \<and> - 1074 \<le> (0::int) \<and> (0::int) \<le> 971"
      by simp
    ultimately have "\<exists>m q. r = of_int m * 2 powi q \<and> \<bar>m\<bar> < 2 ^ 53 \<and> - 1074 \<le> q \<and> q \<le> 971"
      by (simp only:) blast
    moreover have "\<bar>x - r\<bar> \<le> \<bar>x - of_int m' * 2 powi q'\<bar>"
      using 1 \<open>r = 0\<close> by simp
    ultimately show ?thesis
      by blast
  next
    case 2
    with assms have "fl_pos x = Num r" by (simp add: fl_def)
    from fl_pos_nearest [OF 2 this] show ?thesis by blast
  next
    case 3
    with assms have "negate (fl_pos (- x)) = Num r" by (simp add: fl_def)
    then have p: "fl_pos (- x) = Num (- r)"
      by (cases "fl_pos (- x)") auto
    from 3 have x: "0 < - x" by simp
    from fl_pos_nearest(1) [OF x p] obtain m q
      where m: "- r = of_int m * 2 powi q" "\<bar>m\<bar> < 2 ^ 53" "- 1074 \<le> q" "q \<le> 971"
      by blast
    from m(1) have "r = of_int (- m) * 2 powi q"
      by (simp add: minus_equation_iff [of r])
    with m(2-) have 1: "\<exists>m q. r = of_int m * 2 powi q \<and> \<bar>m\<bar> < 2 ^ 53 \<and> - 1074 \<le> q \<and> q \<le> 971"
      by (intro exI [of _ "- m"] exI [of _ q]) simp
    have "\<bar>x - r\<bar> \<le> \<bar>x - of_int m' * 2 powi q'\<bar>" if "\<bar>m'\<bar> < 2 ^ 53" "- 1074 \<le> q'"
    proof -
      from that have "\<bar>- m'\<bar> < 2 ^ 53" by simp
      from fl_pos_nearest(2) [OF x p this that(2)]
      have "\<bar>- x - - r\<bar> \<le> \<bar>- x - of_int (- m') * 2 powi q'\<bar>" .
      moreover have "\<bar>- x - - r\<bar> = \<bar>x - r\<bar>"
        by (simp add: abs_minus_commute)
      moreover have "\<bar>- x - of_int (- m') * 2 powi q'\<bar> = \<bar>x - of_int m' * 2 powi q'\<bar>"
        by (simp add: abs_minus_commute)
      ultimately show ?thesis by (simp only:)
    qed
    with 1 show ?thesis by blast
  qed
  then show "\<exists>m q. r = of_int m * 2 powi q \<and> \<bar>m\<bar> < 2 ^ 53 \<and> - 1074 \<le> q \<and> q \<le> 971"
    and "\<bar>m'\<bar> < 2 ^ 53 \<Longrightarrow> - 1074 \<le> q' \<Longrightarrow> \<bar>x - r\<bar> \<le> \<bar>x - of_int m' * 2 powi q'\<bar>"
    by blast+
qed

subsection \<open>createPriceForPlan\<close>

text \<open>
  Claim C10. createPriceForPlan rejects an empty plan name and a plan price equal to 0
  (NaN as well) with the validation exception and leaves the world as it found it: no
  call to the platform and no log line, whatever the collaborators are. When the name is
  not empty, the price is a finite number other than 0 and the product is created, the
  price request carries as unit amount the double product of the price and 100, rounded
  to the nearest integer with a tie going up; the outcome is the platform's price, or
  the plan exception after the error is logged.
\<close>

theorem createPriceForPlan_rejects_zero:
  "(planName = [] \<or> planPrice = Num 0 \<or> planPrice = NaN \<longrightarrow>
      createPriceForPlan env planName planPrice s
        = (Inl (BadRequestException ''Le plan doit avoir un nom et un prix valides.''), s))
   \<and> (planName \<noteq> [] \<and> planPrice = Num p \<and> p \<noteq> 0
       \<and> products_create env planName s = (Inr product, s1) \<longrightarrow>
      createPriceForPlan env planName planPrice s
        = (case prices_create env
             \<lparr>prc_unit_amount =
                (case fl (p * 100) of Num y \<Rightarrow> Num (of_int (round y)) | other \<Rightarrow> other),
              prc_currency = ''eur'', prc_recurring_interval = ''month'',
              prc_product = prod_id product\<rparr> s1 of
             (Inr price, s2) \<Rightarrow> (Inr price, s2)
           | (Inl err, s2) \<Rightarrow>
               (Inl (BadRequestException (''Impossible de cr'' @ e_acute @ ''er le plan sur Stripe'')),
                logger_error env (''Erreur lors de la cr'' @ e_acute @ ''ation du plan '' @ planName) err s2)))"
proof -
  have r: "Math_round (fl (p * 100))
      = (case fl (p * 100) of Num y \<Rightarrow> Num (of_int (round y)) | other \<Rightarrow> other)"
    by (cases "fl (p * 100)") (simp_all add: round_def)
  show ?thesis
    by (auto simp: createPriceForPlan_def falsy_def throw_def try_catch_def await_def resolve_def
          effect_def r split: prod.splits sum.splits)
qed

text \<open>
  The prices 0.015, 1.005, 2.675 and 9.99 as doubles: the unit amounts are 2, 100, 268
  and 999.
\<close>

theorem createPriceForPlan_rejects_zero_witness:
  "createPriceForPlan price_env ''Pro'' (Num 0) w0
     = (Inl (BadRequestException ''Le plan doit avoir un nom et un prix valides.''), w0)
   \<and> createPriceForPlan price_env [] (Num (999 / 100)) w0
     = (Inl (BadRequestException ''Le plan doit avoir un nom et un prix valides.''), w0)
   \<and> fl (15 / 1000) = Num (1080863910568919 / 72057594037927936)
   \<and> createPriceForPlan price_env ''Pro'' (Num (1080863910568919 / 72057594037927936)) w0
     = (Inr \<lparr>price_id = ''price_1'', price_unit_amount = Num 2\<rparr>,
        w0\<lparr>w_trace := [''products.create'', ''prices.create'']\<rparr>)
   \<and> fl (1005 / 1000) = Num (1131529406376837 / 1125899906842624)
   \<and> createPriceForPlan price_env ''Pro'' (Num (1131529406376837 / 1125899906842624)) w0
     = (Inr \<lparr>price_id = ''price_1'', price_unit_amount = Num 100\<rparr>,
        w0\<lparr>w_trace := [''products.create'', ''prices.create'']\<rparr>)
   \<and> fl (2675 / 1000) = Num (3011782250804019 / 1125899906842624)
   \<and> createPriceForPlan price_env ''Pro'' (Num (3011782250804019 / 1125899906842624)) w0
     = (Inr \<lparr>price_id = ''price_1'', price_unit_amount = Num 268\<rparr>,
        w0\<lparr>w_trace := [''products.create'', ''prices.create'']\<rparr>)
   \<and> fl (999 / 100) = Num (5623870034678907 / 562949953421312)
   \<and> createPriceForPlan price_env ''Pro'' (Num (5623870034678907 / 562949953421312)) w0
     = (Inr \<lparr>price_id = ''price_1'', price_unit_amount = Num 999\<rparr>,
        w0\<lparr>w_trace := [''products.create'', ''prices.create'']\<rparr>)"
proof -
  have pc: "products_create price_env ''Pro'' w0
      = (Inr \<lparr>prod_id = ''prod_1''\<rparr>, w0\<lparr>w_trace := [''products.create'']\<rparr>)"
    by (simp add: price_env_def offline_env_def answer_def trace_def w0_def)
  note t = createPriceForPlan_rejects_zero [of _ _ price_env w0]
  note u = t [THEN conjunct2, rule_format, OF conjI [OF _ conjI [OF refl conjI [OF _ pc]]]]
  show ?thesis
    using t [of "''Pro''" "Num 0"] t [of "[]" "Num (999 / 100)"]
      u [where p = "1080863910568919 / 72057594037927936"]
      u [where p = "1131529406376837 / 1125899906842624"]
      u [where p = "3011782250804019 / 1125899906842624"]
      u [where p = "5623870034678907 / 562949953421312"]
    by (simp add: fl_eval round_def price_env_def offline_env_def answer_def trace_def w0_def)
qed

subsection \<open>Substrings\<close>

lemma starts_with_iff: "starts_with s sub \<longleftrightarrow> (\<exists>post. s = sub @ post)"
  by (induction s sub rule: starts_with.induct) auto

lemma str_includes_iff: "str_includes s sub \<longleftrightarrow> (\<exists>pre post. s = pre @ sub @ post)"
proof (induction s)
  case Nil
  then show ?case by auto
next
  case (Cons d s)
  show ?case
  proof
    assume "str_includes (d # s) sub"
    then consider "starts_with (d # s) sub" | "str_includes s sub" by auto
    then show "\<exists>pre post. d # s = pre @ sub @ post"
    proof cases
      case 1
      then obtain post where "d # s = sub @ post" by (auto simp: starts_with_iff)
      then have "d # s = [] @ sub @ post" by simp
      then show ?thesis by blast
    next
      case 2
      then obtain pre post where "s = pre @ sub @ post" using Cons.IH by auto
      then have "d # s = (d # pre) @ sub @ post" by simp
      then show ?thesis by blast
    qed
  next
    assume "\<exists>pre post. d # s = pre @ sub @ post"
    then obtain pre post where e: "d # s = pre @ sub @ post" by auto
    show "str_includes (d # s) sub"
    proof (cases pre)
      case Nil
      with e have "starts_with (d # s) sub" by (auto simp: starts_with_iff)
      then show ?thesis by simp
    next
      case (Cons a pre')
      with e have "s = pre' @ sub @ post" by simp
      then have "str_includes s sub" using Cons.IH by auto
      then show ?thesis by simp
    qed
  qed
qed

subsection \<open>getStripeAccountStatus\<close>

text \<open>
  Claim C6. getStripeAccountStatus never raises. When the retrieval of the account fails
  (an unknown account id is one such failure) it logs the error and returns the status
  with all three fields false. When the account is retrieved, isValid holds iff the
  details are submitted, isEnabled iff charges and payouts are both enabled, and
  needsIdCard iff some entry of the currently-due requirements contains the text
  verification.document.
\<close>

theorem getStripeAccountStatus_never_raises:
  "(\<exists>st s'. getStripeAccountStatus env stripeAccountId s = (Inr st, s'))
   \<and> (accounts_retrieve env stripeAccountId s = (Inl err, s1) \<longrightarrow>
        getStripeAccountStatus env stripeAccountId s
          = (Inr \<lparr>isValid = False, isEnabled = False, needsIdCard = False\<rparr>,
             logger_error env
               (''Erreur lors de la r'' @ e_acute @ ''cup'' @ e_acute @ ''ration du statut du compte ''
                  @ stripeAccountId) err s1))
   \<and> (accounts_retrieve env stripeAccountId s = (Inr account, s1) \<longrightarrow>
        (\<exists>st. getStripeAccountStatus env stripeAccountId s = (Inr st, s1)
           \<and> (isValid st \<longleftrightarrow> details_submitted account)
           \<and> (isEnabled st \<longleftrightarrow> charges_enabled account \<and> payouts_enabled account)
           \<and> (needsIdCard st \<longleftrightarrow>
                (\<exists>r due req pre post. acct_requirements account = Some r \<and> currently_due r = Some due
                   \<and> req \<in> set due \<and> req = pre @ ''verification.document'' @ post))))"
proof (intro conjI impI)
  show "\<exists>st s'. getStripeAccountStatus env stripeAccountId s = (Inr st, s')"
    by (cases "accounts_retrieve env stripeAccountId s")
       (auto simp: getStripeAccountStatus_def try_catch_def await_def resolve_def effect_def Let_def
             split: sum.splits)
next
  assume "accounts_retrieve env stripeAccountId s = (Inl err, s1)"
  then show "getStripeAccountStatus env stripeAccountId s
          = (Inr \<lparr>isValid = False, isEnabled = False, needsIdCard = False\<rparr>,
             logger_error env
               (''Erreur lors de la r'' @ e_acute @ ''cup'' @ e_acute @ ''ration du statut du compte ''
                  @ stripeAccountId) err s1)"
    by (simp add: getStripeAccountStatus_def try_catch_def await_def resolve_def effect_def)
next
  assume a: "accounts_retrieve env stripeAccountId s = (Inr account, s1)"
  have n: "(case acct_requirements account of None \<Rightarrow> False
            | Some r \<Rightarrow> (case currently_due r of None \<Rightarrow> False
                | Some due \<Rightarrow> list_ex (\<lambda>req. str_includes req ''verification.document'') due))
          \<longleftrightarrow> (\<exists>r due req pre post. acct_requirements account = Some r \<and> currently_due r = Some due
                   \<and> req \<in> set due \<and> req = pre @ ''verification.document'' @ post)"
    by (auto simp: list_ex_iff str_includes_iff split: option.splits)
  show "\<exists>st. getStripeAccountStatus env stripeAccountId s = (Inr st, s1)
           \<and> (isValid st \<longleftrightarrow> details_submitted account)
           \<and> (isEnabled st \<longleftrightarrow> charges_enabled account \<and> payouts_enabled account)
           \<and> (needsIdCard st \<longleftrightarrow>
                (\<exists>r due req pre post. acct_requirements account = Some r \<and> currently_due r = Some due
                   \<and> req \<in> set due \<and> req = pre @ ''verification.document'' @ post))"
    using a n
    by (simp add: getStripeAccountStatus_def try_catch_def await_def resolve_def effect_def Let_def)
qed

theorem getStripeAccountStatus_never_raises_witness:
  "getStripeAccountStatus account_env ''acct_missing'' w0
     = (Inr \<lparr>isValid = False, isEnabled = False, needsIdCard = False\<rparr>,
        w0\<lparr>w_trace := [''accounts.retrieve'', ''error'']\<rparr>)
   \<and> getStripeAccountStatus account_env ''acct_1'' w0
     = (Inr \<lparr>isValid = True, isEnabled = False, needsIdCard = True\<rparr>,
        w0\<lparr>w_trace := [''accounts.retrieve'']\<rparr>)"
  using getStripeAccountStatus_never_raises [of account_env "''acct_missing''" w0
          "StripeError None ''no such accounts.retrieve''" "w0\<lparr>w_trace := [''accounts.retrieve'']\<rparr>"]
        getStripeAccountStatus_never_raises [of account_env "''acct_1''" w0 _ _
          "\<lparr>details_submitted = True, charges_enabled = True, payouts_enabled = False,
           acct_requirements = Some \<lparr>currently_due =
             Some [''external_account'', ''individual.verification.document.front'']\<rparr>\<rparr>"]
  by (simp add: getStripeAccountStatus_def try_catch_def await_def resolve_def effect_def
        account_env_def offline_env_def answer_def refuse_def trace_def w0_def)

subsection \<open>transferToConnectedAccount\<close>




subsection \<open>handleWebhook\<close>

text \<open>
  Claim C8. The signature is checked by the platform library's constructEvent over the
  raw body, the signature header and the configured secret. Whenever that check fails,
  whatever the body says about the event, handleWebhook answers with the client error
  BadRequestException and nothing else happens: no log line, no branch of the dispatch.
  When the check succeeds and the event type is none of the three the dispatch knows,
  the only effect is the log line for an unhandled event and the answer is
  {received: true}.
\<close>

theorem handleWebhook_rejects_bad_signature:
  "(webhooks_constructEvent env (rawBody req) (stripe_signature req)
        (config_get env ''STRIPE_WEBHOOK_SECRET'' s) s = (Inl err, s1) \<longrightarrow>
      handleWebhook env req s
        = (Inl (BadRequestException (''Signature invalide : '' @ err_message err)), s1))
   \<and> (webhooks_constructEvent env (rawBody req) (stripe_signature req)
        (config_get env ''STRIPE_WEBHOOK_SECRET'' s) s = (Inr event, s1)
       \<and> ev_type event \<noteq> ''invoice.payment_succeeded''
       \<and> ev_type event \<noteq> ''payment_intent.succeeded''
       \<and> ev_type event \<noteq> ''charge.refunded'' \<longrightarrow>
      handleWebhook env req s
        = (Inr \<lparr>received = True\<rparr>,
           logger_log env
             (E_acute @ ''v'' @ e_acute @ ''nement non g'' @ e_acute @ ''r'' @ e_acute @ '' : ''
                @ ev_type event) s1))"
  by (simp add: handleWebhook_def try_catch_def await_def resolve_def effect_def throw_def)

theorem handleWebhook_rejects_bad_signature_witness:
  "handleWebhook webhook_env \<lparr>rawBody = ''charge.refunded'', stripe_signature = Some ''sig_forged''\<rparr> w0
     = (Inl (BadRequestException
          ''Signature invalide : No signatures found matching the expected signature for payload''),
        w0\<lparr>w_trace := [''webhooks.constructEvent'']\<rparr>)
   \<and> handleWebhook webhook_env \<lparr>rawBody = ''customer.created'', stripe_signature = None\<rparr> w0
     = (Inl (BadRequestException
          ''Signature invalide : No signatures found matching the expected signature for payload''),
        w0\<lparr>w_trace := [''webhooks.constructEvent'']\<rparr>)
   \<and> handleWebhook webhook_env \<lparr>rawBody = ''customer.created'', stripe_signature = Some ''sig_ok''\<rparr> w0
     = (Inr \<lparr>received = True\<rparr>, w0\<lparr>w_trace := [''webhooks.constructEvent'', ''log'']\<rparr>)"
  using handleWebhook_rejects_bad_signature [of webhook_env
          "\<lparr>rawBody = ''charge.refunded'', stripe_signature = Some ''sig_forged''\<rparr>" w0
          "StripeError None ''No signatures found matching the expected signature for payload''"
          "w0\<lparr>w_trace := [''webhooks.constructEvent'']\<rparr>"]
        handleWebhook_rejects_bad_signature [of webhook_env
          "\<lparr>rawBody = ''customer.created'', stripe_signature = None\<rparr>" w0
          "StripeError None ''No signatures found matching the expected signature for payload''"
          "w0\<lparr>w_trace := [''webhooks.constructEvent'']\<rparr>"]
        handleWebhook_rejects_bad_signature [of webhook_env
          "\<lparr>rawBody = ''customer.created'', stripe_signature = Some ''sig_ok''\<rparr>" w0 _
          "w0\<lparr>w_trace := [''webhooks.constructEvent'']\<rparr>" "\<lparr>ev_type = ''customer.created''\<rparr>"]
  by (simp add: webhook_env_def offline_env_def answer_def trace_def w0_def)

subsection \<open>createSubscription\<close>

text \<open>
  Claim C5. createSubscription sends one subscription request for the customer and the
  price. The request carries a trial end exactly when a start date is supplied, is a
  valid date and lies strictly after the current time; the trial end is then the floor of
  the date's time in seconds. A start date that is not later than now is ignored: the
  call behaves as the call without a start date, and raises nothing of its own.
\<close>

theorem createSubscription_trial_end:
  "(Date_now env s < ms \<longrightarrow>
      createSubscription env customerId priceId (Some (Date ms)) s
        = (case subscriptions_create env
             \<lparr>sc_customer = customerId, sc_items = [priceId],
              sc_trial_end = Some \<lfloor>(of_int ms :: rat) / 1000\<rfloor>\<rparr> s of
             (Inr sub, s1) \<Rightarrow> (Inr sub, s1)
           | (Inl err, s1) \<Rightarrow>
               (Inl (BadRequestException
                  (''Impossible de cr'' @ e_acute @ ''er l'' @ rsquo @ ''abonnement Stripe'')),
                logger_error env
                  (''Erreur lors de la cr'' @ e_acute @ ''ation d'' @ [CHR 0x27] @ ''un abonnement pour ''
                     @ customerId) err s1)))
   \<and> (ms \<le> Date_now env s \<longrightarrow>
      createSubscription env customerId priceId (Some (Date ms)) s
        = createSubscription env customerId priceId None s)
   \<and> createSubscription env customerId priceId (Some InvalidDate) s
        = createSubscription env customerId priceId None s
   \<and> createSubscription env customerId priceId None s
        = (case subscriptions_create env
             \<lparr>sc_customer = customerId, sc_items = [priceId], sc_trial_end = None\<rparr> s of
             (Inr sub, s1) \<Rightarrow> (Inr sub, s1)
           | (Inl err, s1) \<Rightarrow>
               (Inl (BadRequestException
                  (''Impossible de cr'' @ e_acute @ ''er l'' @ rsquo @ ''abonnement Stripe'')),
                logger_error env
                  (''Erreur lors de la cr'' @ e_acute @ ''ation d'' @ [CHR 0x27] @ ''un abonnement pour ''
                     @ customerId) err s1))"
proof -
  have fl: "\<lfloor>(of_int ms :: rat) / 1000\<rfloor> = ms div 1000"
    using floor_divide_of_int_eq [of ms 1000, where ?'a = rat] by simp
  show ?thesis
    by (auto simp: createSubscription_def try_catch_def await_def resolve_def effect_def throw_def
          Let_def fl split: prod.splits sum.splits)
qed

theorem createSubscription_trial_end_witness:
  "createSubscription subscription_env ''cus_1'' ''price_1'' (Some (Date 1800000000999)) w0
     = (Inr \<lparr>sub_id = ''sub_trialing''\<rparr>,
        w0\<lparr>w_trace := [''subscriptions.create trial_end=1800000000'']\<rparr>)
   \<and> createSubscription subscription_env ''cus_1'' ''price_1'' (Some (Date 1700000000123)) w0
     = (Inr \<lparr>sub_id = ''sub_active''\<rparr>, w0\<lparr>w_trace := [''subscriptions.create'']\<rparr>)
   \<and> createSubscription subscription_env ''cus_1'' ''price_1'' (Some (Date 1600000000000)) w0
     = (Inr \<lparr>sub_id = ''sub_active''\<rparr>, w0\<lparr>w_trace := [''subscriptions.create'']\<rparr>)
   \<and> createSubscription subscription_env ''cus_1'' ''price_1'' None w0
     = (Inr \<lparr>sub_id = ''sub_active''\<rparr>, w0\<lparr>w_trace := [''subscriptions.create'']\<rparr>)"
proof -
  have fl: "\<lfloor>(1800000000999 :: rat) / 1000\<rfloor> = 1800000000"
    by (simp add: floor_eq_iff)
  show ?thesis
    using createSubscription_trial_end [of subscription_env w0 1800000000999 "''cus_1''" "''price_1''"]
          createSubscription_trial_end [of subscription_env w0 1700000000123 "''cus_1''" "''price_1''"]
          createSubscription_trial_end [of subscription_env w0 1600000000000 "''cus_1''" "''price_1''"]
    by (simp add: fl subscription_env_def offline_env_def answer_def trace_def w0_def)
qed

subsection \<open>chargeCustomer\<close>

text \<open>
  A platform error with the code authentication_required or card_declined, raised when
  the payment is created, reaches the caller as the exception that quotes the platform's
  message; it differs from the generic exception of the other failures.
\<close>

theorem chargeCustomer_declined:
  assumes "paymentMethods_list env
             \<lparr>pml_customer = customerId, pml_type = ''card'', pml_limit = 1\<rparr> s = (Inr pms, s1)"
      and "page_data pms = pm # others"
      and "paymentIntents_create env
             \<lparr>pic_amount = amountInCents, pic_currency = ''eur'', pic_customer = customerId,
              pic_payment_method = pm_id pm, pic_off_session = True, pic_confirm = True,
              pic_description = description\<rparr> s1 = (Inl err, s2)"
      and "err_code err = Some ''authentication_required'' \<or> err_code err = Some ''card_declined''"
  shows "chargeCustomer env customerId amountInCents description s
           = (Inl (BadRequestException
                (''Paiement '' @ e_acute @ ''chou'' @ e_acute @ '' : '' @ err_message err)),
              logger_error env
                (''Erreur lors du pr'' @ e_acute @ ''l'' @ e_grave @ ''vement pour le client '' @ customerId)
                err s2)"
  using assms
  by (auto simp: chargeCustomer_def try_catch_def await_def resolve_def effect_def throw_def)

theorem chargeCustomer_declined_witness:
  "chargeCustomer cards_env ''cus_1'' 250000 ''order 8'' w1
     = (Inl (BadRequestException
          (''Paiement '' @ e_acute @ ''chou'' @ e_acute @ '' : Your card was declined.'')),
        w1\<lparr>w_trace := [''paymentMethods.list'', ''paymentIntents.create'', ''error'']\<rparr>)
   \<and> ''Paiement '' @ e_acute @ ''chou'' @ e_acute @ '' : Your card was declined.''
       \<noteq> ''Erreur lors du pr'' @ e_acute @ ''l'' @ e_grave @ ''vement Stripe''"
  using chargeCustomer_declined [of cards_env "''cus_1''" w1
          "\<lparr>page_data = [\<lparr>pm_id = ''pm_1''\<rparr>], has_more = False\<rparr>"
          "w1\<lparr>w_trace := [''paymentMethods.list'']\<rparr>" "\<lparr>pm_id = ''pm_1''\<rparr>" "[]" 250000 "''order 8''"
          "StripeError (Some ''card_declined'') ''Your card was declined.''"
          "w1\<lparr>w_trace := [''paymentMethods.list'', ''paymentIntents.create'']\<rparr>"]
  by (simp add: cards_env_def offline_env_def answer_def trace_def w1_def e_acute_def e_grave_def)

text \<open>
  For a customer with a card whose payment the platform creates, chargeCustomer returns
  the id of that payment; the payment is requested off-session and confirmed, in euros,
  on the first listed card.
\<close>

theorem chargeCustomer_success:
  assumes "paymentMethods_list env
             \<lparr>pml_customer = customerId, pml_type = ''card'', pml_limit = 1\<rparr> s = (Inr pms, s1)"
      and "page_data pms = pm # others"
      and "paymentIntents_create env
             \<lparr>pic_amount = amountInCents, pic_currency = ''eur'', pic_customer = customerId,
              pic_payment_method = pm_id pm, pic_off_session = True, pic_confirm = True,
              pic_description = description\<rparr> s1 = (Inr intent, s2)"
  shows "chargeCustomer env customerId amountInCents description s
           = (Inr \<lparr>paymentIntentId = pi_id intent\<rparr>, s2)"
  using assms
  by (simp add: chargeCustomer_def try_catch_def await_def resolve_def effect_def throw_def)

theorem chargeCustomer_success_witness:
  "chargeCustomer cards_env ''cus_1'' 500 ''order 7'' w1
     = (Inr \<lparr>paymentIntentId = ''pi_1''\<rparr>,
        w1\<lparr>w_trace := [''paymentMethods.list'', ''paymentIntents.create'']\<rparr>)"
  using chargeCustomer_success [of cards_env "''cus_1''" w1
          "\<lparr>page_data = [\<lparr>pm_id = ''pm_1''\<rparr>], has_more = False\<rparr>"
          "w1\<lparr>w_trace := [''paymentMethods.list'']\<rparr>" "\<lparr>pm_id = ''pm_1''\<rparr>" "[]" 500 "''order 7''"
          "\<lparr>pi_id = ''pi_1'', pi_status = ''succeeded'', pi_payment_method_types = [''card''],
            pi_amount_received = Some (Num 500)\<rparr>"
          "w1\<lparr>w_trace := [''paymentMethods.list'', ''paymentIntents.create'']\<rparr>"]
  by (simp add: cards_env_def offline_env_def answer_def trace_def w1_def)

text \<open>
  Claim C2. chargeCustomer is to fail with a validation error of its own when the
  customer has no card. The service builds that exception inside its own try block:
  its catch clause logs it, finds no error code on it and throws the generic exception
  in its place. The caller gets, for a customer without a card, exactly the exception it
  gets for any platform failure without one of the two decline codes.
\<close>

theorem chargeCustomer_no_card_is_generic:
  "(paymentMethods_list env
        \<lparr>pml_customer = customerId, pml_type = ''card'', pml_limit = 1\<rparr> s = (Inr pms, s1)
      \<and> page_data pms = [] \<longrightarrow>
    chargeCustomer env customerId amountInCents description s
      = (Inl (BadRequestException
           (''Erreur lors du pr'' @ e_acute @ ''l'' @ e_grave @ ''vement Stripe'')),
         logger_error env
           (''Erreur lors du pr'' @ e_acute @ ''l'' @ e_grave @ ''vement pour le client '' @ customerId)
           (BadRequestException (''Aucun moyen de paiement attach'' @ e_acute @ '' au client.'')) s1))
   \<and> (paymentMethods_list env
        \<lparr>pml_customer = customerId, pml_type = ''card'', pml_limit = 1\<rparr> s = (Inl err, s1)
      \<and> err_code err \<noteq> Some ''authentication_required'' \<and> err_code err \<noteq> Some ''card_declined'' \<longrightarrow>
    chargeCustomer env customerId amountInCents description s
      = (Inl (BadRequestException
           (''Erreur lors du pr'' @ e_acute @ ''l'' @ e_grave @ ''vement Stripe'')),
         logger_error env
           (''Erreur lors du pr'' @ e_acute @ ''l'' @ e_grave @ ''vement pour le client '' @ customerId)
           err s1))"
  by (simp add: chargeCustomer_def try_catch_def await_def resolve_def effect_def throw_def)

theorem chargeCustomer_no_card_is_generic_witness:
  "chargeCustomer cards_env ''cus_none'' 500 ''order 7'' w1
     = (Inl (BadRequestException (''Erreur lors du pr'' @ e_acute @ ''l'' @ e_grave @ ''vement Stripe'')),
        w1\<lparr>w_trace := [''paymentMethods.list'', ''error'']\<rparr>)
   \<and> chargeCustomer offline_env ''cus_1'' 500 ''order 7'' w1
     = (Inl (BadRequestException (''Erreur lors du pr'' @ e_acute @ ''l'' @ e_grave @ ''vement Stripe'')),
        w1\<lparr>w_trace := [''paymentMethods.list'', ''error'']\<rparr>)
   \<and> fst (chargeCustomer cards_env ''cus_none'' 500 ''order 7'' w1)
       \<noteq> Inl (BadRequestException (''Aucun moyen de paiement attach'' @ e_acute @ '' au client.''))"
  using chargeCustomer_no_card_is_generic [of cards_env "''cus_none''" w1
          "\<lparr>page_data = [], has_more = False\<rparr>" "w1\<lparr>w_trace := [''paymentMethods.list'']\<rparr>" 500 "''order 7''"]
        chargeCustomer_no_card_is_generic [of offline_env "''cus_1''" w1 _
          "w1\<lparr>w_trace := [''paymentMethods.list'']\<rparr>" 500 "''order 7''"
          "StripeError None ''no such paymentMethods.list''"]
  by (simp add: cards_env_def offline_env_def answer_def refuse_def trace_def w1_def e_acute_def e_grave_def)

subsection \<open>attachPaymentMethod\<close>

text \<open>
  When the listed cards of the customer do not hold the payment method and the platform
  accepts the attach call and the update of the default payment method, the call
  succeeds and the world is the one the three platform calls leave.
\<close>

theorem attachPaymentMethod_success:
  assumes "paymentMethods_list env
             \<lparr>pml_customer = customerId, pml_type = ''card'', pml_limit = 100\<rparr> s = (Inr existingPMs, s1)"
      and "paymentMethodId \<notin> pm_id ` set (page_data existingPMs)"
      and "paymentMethods_attach env paymentMethodId customerId s1 = (Inr pm, s2)"
      and "customers_update env customerId paymentMethodId s2 = (Inr c, s3)"
  shows "attachPaymentMethod env customerId paymentMethodId s = (Inr (), s3)"
  using assms
  by (auto simp: attachPaymentMethod_def try_catch_def await_def resolve_def effect_def throw_def
        list_ex_iff)

theorem attachPaymentMethod_success_witness:
  "attachPaymentMethod cards_env ''cus_1'' ''pm_2'' w1
     = (Inr (), w1\<lparr>w_cards := [(''cus_1'', ''pm_2''), (''cus_1'', ''pm_1'')],
                   w_trace := [''paymentMethods.list'', ''paymentMethods.attach'', ''customers.update'']\<rparr>)"
  using attachPaymentMethod_success [of cards_env "''cus_1''" w1
          "\<lparr>page_data = [\<lparr>pm_id = ''pm_1''\<rparr>], has_more = False\<rparr>"
          "w1\<lparr>w_trace := [''paymentMethods.list'']\<rparr>" "''pm_2''" "\<lparr>pm_id = ''pm_2''\<rparr>"
          "w1\<lparr>w_cards := [(''cus_1'', ''pm_2''), (''cus_1'', ''pm_1'')],
              w_trace := [''paymentMethods.list'', ''paymentMethods.attach'']\<rparr>"
          "\<lparr>cus_id = ''cus_1''\<rparr>"
          "w1\<lparr>w_cards := [(''cus_1'', ''pm_2''), (''cus_1'', ''pm_1'')],
              w_trace := [''paymentMethods.list'', ''paymentMethods.attach'', ''customers.update'']\<rparr>"]
  by (simp add: cards_env_def offline_env_def answer_def trace_def w1_def)

text \<open>
  Claim C3. A second attachPaymentMethod for the same customer and payment method is to
  fail with a conflict error. The service finds the payment method among the listed
  cards and builds the conflict exception, inside its own try block: the catch clause
  logs it and throws the generic attachment exception, the one the caller also gets when
  the platform refuses the attach call. On that path the world is the one the list call
  and the log line leave: no attach call and no update call reach the platform, in any
  environment.
\<close>

theorem attachPaymentMethod_conflict_is_generic:
  "(paymentMethods_list env
        \<lparr>pml_customer = customerId, pml_type = ''card'', pml_limit = 100\<rparr> s = (Inr existingPMs, s1)
      \<and> paymentMethodId \<in> pm_id ` set (page_data existingPMs) \<longrightarrow>
    attachPaymentMethod env customerId paymentMethodId s
      = (Inl (BadRequestException
           (''Erreur lors de l'' @ rsquo @ ''attachement de la m'' @ e_acute @ ''thode de paiement.'')),
         logger_error env
           (''Impossible d'' @ rsquo @ ''attacher le PaymentMethod '' @ paymentMethodId
              @ '' au client '' @ customerId)
           (BadRequestException
              (''Cette m'' @ e_acute @ ''thode de paiement est d'' @ e_acute @ ''j'' @ a_grave
                 @ '' attach'' @ e_acute @ ''e au client.'')) s1))
   \<and> (paymentMethods_list env
        \<lparr>pml_customer = customerId, pml_type = ''card'', pml_limit = 100\<rparr> s = (Inr existingPMs, s1)
      \<and> paymentMethodId \<notin> pm_id ` set (page_data existingPMs)
      \<and> paymentMethods_attach env paymentMethodId customerId s1 = (Inl err, s2) \<longrightarrow>
    attachPaymentMethod env customerId paymentMethodId s
      = (Inl (BadRequestException
           (''Erreur lors de l'' @ rsquo @ ''attachement de la m'' @ e_acute @ ''thode de paiement.'')),
         logger_error env
           (''Impossible d'' @ rsquo @ ''attacher le PaymentMethod '' @ paymentMethodId
              @ '' au client '' @ customerId) err s2))"
  by (auto simp: attachPaymentMethod_def try_catch_def await_def resolve_def effect_def throw_def
        list_ex_iff)

theorem attachPaymentMethod_conflict_is_generic_witness:
  "attachPaymentMethod cards_env ''cus_1'' ''pm_1'' w0
     = (Inr (), w0\<lparr>w_cards := [(''cus_1'', ''pm_1'')],
                   w_trace := [''paymentMethods.list'', ''paymentMethods.attach'', ''customers.update'']\<rparr>)
   \<and> attachPaymentMethod cards_env ''cus_1'' ''pm_1''
       (w0\<lparr>w_cards := [(''cus_1'', ''pm_1'')],
           w_trace := [''paymentMethods.list'', ''paymentMethods.attach'', ''customers.update'']\<rparr>)
     = (Inl (BadRequestException
          (''Erreur lors de l'' @ rsquo @ ''attachement de la m'' @ e_acute @ ''thode de paiement.'')),
        w0\<lparr>w_cards := [(''cus_1'', ''pm_1'')],
           w_trace := [''paymentMethods.list'', ''paymentMethods.attach'', ''customers.update'',
                       ''paymentMethods.list'', ''error'']\<rparr>)
   \<and> attachPaymentMethod cards_env ''cus_1'' ''pm_unknown'' w0
     = (Inl (BadRequestException
          (''Erreur lors de l'' @ rsquo @ ''attachement de la m'' @ e_acute @ ''thode de paiement.'')),
        w0\<lparr>w_trace := [''paymentMethods.list'', ''paymentMethods.attach'', ''error'']\<rparr>)"
  using attachPaymentMethod_conflict_is_generic [of cards_env "''cus_1''"
          "w0\<lparr>w_cards := [(''cus_1'', ''pm_1'')],
              w_trace := [''paymentMethods.list'', ''paymentMethods.attach'', ''customers.update'']\<rparr>"
          "\<lparr>page_data = [\<lparr>pm_id = ''pm_1''\<rparr>], has_more = False\<rparr>"
          "w0\<lparr>w_cards := [(''cus_1'', ''pm_1'')],
              w_trace := [''paymentMethods.list'', ''paymentMethods.attach'', ''customers.update'',
                          ''paymentMethods.list'']\<rparr>"
          "''pm_1''"]
        attachPaymentMethod_conflict_is_generic [of cards_env "''cus_1''" w0
          "\<lparr>page_data = [], has_more = False\<rparr>"
          "w0\<lparr>w_trace := [''paymentMethods.list'']\<rparr>"
          "''pm_unknown''" "StripeError None ''no such paymentMethods.attach''"
          "w0\<lparr>w_trace := [''paymentMethods.list'', ''paymentMethods.attach'']\<rparr>"]
  by (simp add: attachPaymentMethod_def try_catch_def await_def resolve_def effect_def throw_def
        cards_env_def offline_env_def answer_def refuse_def trace_def w0_def)

subsection \<open>getTotalRevenue\<close>

text \<open>Adding integers in doubles is exact while the magnitudes stay within \<open>2 ^ 53\<close>.\<close>

lemma foldl_num_add_ints:
  "\<bar>t\<bar> + (\<Sum>a\<leftarrow>as. \<bar>a\<bar>) \<le> 2 ^ 53
   \<Longrightarrow> foldl num_add (Num (of_int t)) (map (\<lambda>a. Num (of_int a)) as) = Num (of_int (t + sum_list as))"
proof (induction as arbitrary: t)
  case Nil
  show ?case by simp
next
  case (Cons a as)
  have nn: "0 \<le> (\<Sum>a\<leftarrow>as. \<bar>a\<bar>)" by (rule sum_list_nonneg) auto
  have "\<bar>t + a\<bar> \<le> 2 ^ 53" using Cons.prems nn by simp
  then have "num_add (Num (of_int t)) (Num (of_int a)) = Num (of_int (t + a))"
    using fl_of_int [of "t + a"] by simp
  moreover have "\<bar>t + a\<bar> + (\<Sum>a\<leftarrow>as. \<bar>a\<bar>) \<le> 2 ^ 53" using Cons.prems nn by simp
  ultimately show ?case
    using Cons.IH [of "t + a"] by (simp add: add.assoc)
qed

text \<open>The loop over one page adds the amounts of the paid, unrefunded charges, in order.\<close>

lemma fold_revenue_step:
  "fold revenue_step charges totalAmount
     = foldl num_add totalAmount
         (map (\<lambda>c. case ch_amount c of None \<Rightarrow> Num 0 | Some a \<Rightarrow> a)
            (filter (\<lambda>c. ch_paid c \<and> \<not> ch_refunded c) charges))"
  by (induction charges arbitrary: totalAmount) (simp_all add: revenue_step_def)

lemma getTotalRevenue_loop_pages:
  assumes "pages_served env startDate endDate cursor s pages s'"
  shows "getTotalRevenue_loop env startDate endDate cursor totalAmount s
           = Some (Inr (fold revenue_step (concat (map page_data pages)) totalAmount), s')"
  using assms
proof (induction arbitrary: totalAmount rule: pages_served.induct)
  case (last_page cursor s page s')
  then show ?case
    by (subst getTotalRevenue_loop.simps) simp
next
  case (next_page cursor s page s1 pages s')
  show ?case
    by (subst getTotalRevenue_loop.simps) (simp add: next_page.hyps next_page.IH)
qed

text \<open>
  Claim C1. For every window and every finite chain of pages the platform serves for it
  (each page but the last announcing more and holding the charge whose id is the next
  cursor), getTotalRevenue returns. Its result is the sum of the amounts of the charges
  of all the pages that are paid and not refunded, a missing amount counting 0, added in
  page order in one accumulator and divided by 100 once, after the last page; unpaid and
  refunded charges are not in the sum. When those amounts are integers whose magnitudes
  add up to at most \<open>2 ^ 53\<close>, every addition is exact, and the result is the double
  nearest to the hundredth of their integer sum.
\<close>

theorem getTotalRevenue_sums_paid_unrefunded:
  assumes "pages_served env startDate endDate None s pages s'"
  shows "getTotalRevenue env startDate endDate s
           = Some (Inr (num_div
               (foldl num_add (Num 0)
                  (map (\<lambda>c. case ch_amount c of None \<Rightarrow> Num 0 | Some a \<Rightarrow> a)
                     (filter (\<lambda>c. ch_paid c \<and> \<not> ch_refunded c) (concat (map page_data pages)))))
               (Num 100)), s')
         \<and> (\<forall>as. map (\<lambda>c. case ch_amount c of None \<Rightarrow> Num 0 | Some a \<Rightarrow> a)
                    (filter (\<lambda>c. ch_paid c \<and> \<not> ch_refunded c) (concat (map page_data pages)))
                  = map (\<lambda>a. Num (of_int a)) as
                \<and> (\<Sum>a\<leftarrow>as. \<bar>a\<bar>) \<le> 2 ^ 53
              \<longrightarrow> getTotalRevenue env startDate endDate s
                    = Some (Inr (fl (of_int (sum_list as) / 100)), s'))"
proof -
  have run: "getTotalRevenue env startDate endDate s
           = Some (Inr (num_div
               (foldl num_add (Num 0)
                  (map (\<lambda>c. case ch_amount c of None \<Rightarrow> Num 0 | Some a \<Rightarrow> a)
                     (filter (\<lambda>c. ch_paid c \<and> \<not> ch_refunded c) (concat (map page_data pages)))))
               (Num 100)), s')"
    by (simp add: getTotalRevenue_def getTotalRevenue_loop_pages [OF assms] fold_revenue_step)
  have "getTotalRevenue env startDate endDate s = Some (Inr (fl (of_int (sum_list as) / 100)), s')"
    if m: "map (\<lambda>c. case ch_amount c of None \<Rightarrow> Num 0 | Some a \<Rightarrow> a)
                    (filter (\<lambda>c. ch_paid c \<and> \<not> ch_refunded c) (concat (map page_data pages)))
                  = map (\<lambda>a. Num (of_int a)) as"
      and b: "(\<Sum>a\<leftarrow>as. \<bar>a\<bar>) \<le> 2 ^ 53" for as
  proof -
    have "foldl num_add (Num (of_int 0)) (map (\<lambda>a. Num (of_int a)) as) = Num (of_int (0 + sum_list as))"
      using b by (intro foldl_num_add_ints) simp
    then show ?thesis
      unfolding run m by simp
  qed
  with run show ?thesis by blast
qed

theorem getTotalRevenue_sums_paid_unrefunded_witness:
  "getTotalRevenue revenue_env 1700000000 1700086400 w0
     = Some (Inr (Num (5416985926796575 / 140737488355328)),
             w0\<lparr>w_trace := [''charges.list'', ''charges.list'']\<rparr>)
   \<and> fl (3849 / 100) = Num (5416985926796575 / 140737488355328)
   \<and> getTotalRevenue huge_env 1700000000 1700086400 w0
     = Some (Inr (Num (5764607523034235 / 64)), w0\<lparr>w_trace := [''charges.list'']\<rparr>)
   \<and> fl (9007199254740992 / 100) = Num (5764607523034235 / 64)"
proof -
  let ?p1 = "\<lparr>page_data =
             [\<lparr>ch_id = ''ch_1'', ch_paid = True, ch_refunded = False, ch_amount = Some (Num 1250),
               ch_amount_refunded = Num 0\<rparr>,
              \<lparr>ch_id = ''ch_2'', ch_paid = True, ch_refunded = True, ch_amount = Some (Num 900),
               ch_amount_refunded = Num 900\<rparr>],
           has_more = True\<rparr>"
  let ?p2 = "\<lparr>page_data =
             [\<lparr>ch_id = ''ch_3'', ch_paid = False, ch_refunded = False, ch_amount = Some (Num 400),
               ch_amount_refunded = Num 0\<rparr>,
              \<lparr>ch_id = ''ch_4'', ch_paid = True, ch_refunded = False, ch_amount = Some (Num 2599),
               ch_amount_refunded = Num 0\<rparr>],
           has_more = False\<rparr>"
  have 2: "pages_served revenue_env 1700000000 1700086400 (Some ''ch_2'')
             (w0\<lparr>w_trace := [''charges.list'']\<rparr>) [?p2]
             (w0\<lparr>w_trace := [''charges.list'', ''charges.list'']\<rparr>)"
    by (rule last_page) (simp_all add: revenue_env_def offline_env_def answer_def trace_def w0_def)
  have 1: "pages_served revenue_env 1700000000 1700086400 None w0 [?p1, ?p2]
             (w0\<lparr>w_trace := [''charges.list'', ''charges.list'']\<rparr>)"
    by (rule next_page [where ?s1.0 = "w0\<lparr>w_trace := [''charges.list'']\<rparr>"])
       (use 2 in \<open>simp_all add: revenue_env_def offline_env_def answer_def trace_def w0_def\<close>)
  have 3: "pages_served huge_env 1700000000 1700086400 None w0
             [\<lparr>page_data = huge_charges, has_more = False\<rparr>] (w0\<lparr>w_trace := [''charges.list'']\<rparr>)"
    by (rule last_page) (simp_all add: huge_env_def offline_env_def answer_def trace_def w0_def)
  have e: "fl (3849 / 100) = Num (5416985926796575 / 140737488355328)"
    by (simp add: fl_eval)
  have h: "fl (9007199254740992 / 100) = Num (5764607523034235 / 64)"
    by (simp add: fl_eval)
  from getTotalRevenue_sums_paid_unrefunded [OF 1, THEN conjunct2, rule_format, of "[1250, 2599]"]
  have a: "getTotalRevenue revenue_env 1700000000 1700086400 w0
     = Some (Inr (Num (5416985926796575 / 140737488355328)),
             w0\<lparr>w_trace := [''charges.list'', ''charges.list'']\<rparr>)"
    by (simp add: e)
  from getTotalRevenue_sums_paid_unrefunded [OF 3, THEN conjunct1]
  have b: "getTotalRevenue huge_env 1700000000 1700086400 w0
     = Some (Inr (Num (5764607523034235 / 64)), w0\<lparr>w_trace := [''charges.list'']\<rparr>)"
    by (simp add: huge_charges_def fl_eval)
  from a e b h show ?thesis by simp
qed

text \<open>
  getTotalRevenue has no try block: a failure of the platform on any page is the failure
  of the call, and a page that announces more without holding a charge makes the read
  of the next cursor throw.
\<close>

theorem getTotalRevenue_failures:
  "(charges_list env
      \<lparr>cl_created = Some (startDate, endDate), cl_payment_intent = None, cl_limit = 100,
       cl_starting_after = None\<rparr> s = (Inl err, s1) \<longrightarrow>
    getTotalRevenue env startDate endDate s = Some (Inl err, s1))
   \<and> (charges_list env
      \<lparr>cl_created = Some (startDate, endDate), cl_payment_intent = None, cl_limit = 100,
       cl_starting_after = None\<rparr> s = (Inr page, s1) \<and> has_more page \<and> page_data page = [] \<longrightarrow>
    getTotalRevenue env startDate endDate s
      = Some (Inl (TypeError ''Cannot read properties of undefined (reading 'id')''), s1))"
  by (auto simp: getTotalRevenue_def getTotalRevenue_loop.simps [of env startDate endDate None])

theorem getTotalRevenue_failures_witness:
  "getTotalRevenue offline_env 1700000000 1700086400 w0
     = Some (Inl (StripeError None ''no such charges.list''), w0\<lparr>w_trace := [''charges.list'']\<rparr>)
   \<and> getTotalRevenue endless_env 1700000000 1700086400 w0
     = Some (Inl (TypeError ''Cannot read properties of undefined (reading 'id')''),
             w0\<lparr>w_trace := [''charges.list'']\<rparr>)"
  using getTotalRevenue_failures [of offline_env 1700000000 1700086400 w0
          "StripeError None ''no such charges.list''" "w0\<lparr>w_trace := [''charges.list'']\<rparr>"]
        getTotalRevenue_failures [of endless_env 1700000000 1700086400 w0 _
          "w0\<lparr>w_trace := [''charges.list'']\<rparr>" "\<lparr>page_data = [], has_more = True\<rparr>"]
  by (simp add: endless_env_def offline_env_def refuse_def answer_def trace_def w0_def)

subsection \<open>getPaymentStats\<close>

lemma charges_served_length:
  "charges_served env payments s pages s' \<Longrightarrow> length pages = length payments"
  by (induction rule: charges_served.induct) simp_all

lemma set_fold_Set_add: "set (fold Set_add ids acc) = set acc \<union> set ids"
  by (induction ids arbitrary: acc) (auto simp: Set_add_def)

lemma distinct_fold_Set_add: "distinct acc \<Longrightarrow> distinct (fold Set_add ids acc)"
  by (induction ids arbitrary: acc) (auto simp: Set_add_def)

lemma length_fold_Set_add: "length (fold Set_add ids []) = card (set ids)"
  using distinct_card [OF distinct_fold_Set_add [of "[]" ids]]
  by (simp add: set_fold_Set_add)

text \<open>The loop that detects refunds, on the pages the platform serves for it.\<close>

lemma refundedIntents_loop_served:
  assumes "charges_served env payments s pages s'"
  shows "refundedIntents_loop env payments refundedIntents s
           = (Inr (fold Set_add
                (map (\<lambda>(intent, page). pi_id intent)
                   (filter (\<lambda>(intent, page).
                      \<exists>c\<in>set (page_data page). ch_refunded c \<or> num_gt (ch_amount_refunded c) (Num 0))
                      (zip payments pages)))
                refundedIntents), s')"
  using assms
proof (induction arbitrary: refundedIntents rule: charges_served.induct)
  case (no_intent s)
  show ?case by (simp add: resolve_def)
next
  case (next_intent intent s page s1 payments pages s')
  show ?case
    by (simp add: await_def next_intent.hyps next_intent.IH list_ex_iff)
qed

text \<open>The dictionary of method statistics.\<close>

lemma obj_get_map_of: "obj_get obj k = map_of obj k"
  by (induction obj) auto

lemma map_of_obj_set: "map_of (obj_set k v obj) = (map_of obj)(k \<mapsto> v)"
  by (induction obj) (auto simp: fun_eq_iff)

lemma keys_obj_set:
  "map fst (obj_set k v obj) = (if k \<in> set (map fst obj) then map fst obj else map fst obj @ [k])"
  by (induction obj) (simp, force)

lemma keys_obj_modify: "map fst (obj_modify k f obj) = map fst obj"
  by (induction obj) auto

lemma map_of_obj_modify:
  "map_of (obj_modify k f obj)
     = (case map_of obj k of None \<Rightarrow> map_of obj | Some v \<Rightarrow> (map_of obj)(k \<mapsto> f v))"
  by (induction obj) (auto simp: fun_eq_iff split: option.splits)

lemma methodStats_step_eq:
  "methodStats_step intent (methodStats, sumAmounts)
     = (let k = declared_method intent;
            obj = (if map_of methodStats k = None
                   then obj_set k \<lparr>ms_count = 0, ms_value = Num 0\<rparr> methodStats else methodStats)
        in (obj_modify k (\<lambda>st. st\<lparr>ms_value := num_add (ms_value st) (received_euros intent)\<rparr>)
              (obj_modify k (\<lambda>st. st\<lparr>ms_count := ms_count st + 1\<rparr>) obj),
            num_add sumAmounts (received_euros intent)))"
  by (simp add: methodStats_step_def Let_def obj_get_map_of)

lemma methodStats_step_keys:
  "map fst (fst (methodStats_step intent (methodStats, sumAmounts)))
     = (if declared_method intent \<in> set (map fst methodStats) then map fst methodStats
        else map fst methodStats @ [declared_method intent])"
  by (auto simp: methodStats_step_eq Let_def keys_obj_modify keys_obj_set map_of_eq_None_iff)

lemma methodStats_step_map_of:
  "map_of (fst (methodStats_step intent (methodStats, sumAmounts)))
     = (map_of methodStats)(declared_method intent \<mapsto>
          (case map_of methodStats (declared_method intent) of
             None \<Rightarrow> \<lparr>ms_count = 1, ms_value = num_add (Num 0) (received_euros intent)\<rparr>
           | Some st \<Rightarrow>
               \<lparr>ms_count = ms_count st + 1, ms_value = num_add (ms_value st) (received_euros intent)\<rparr>))"
  by (auto simp: methodStats_step_eq Let_def map_of_obj_modify map_of_obj_set fun_eq_iff
           split: option.splits)

lemma methodStats_step_sum:
  "snd (methodStats_step intent (methodStats, sumAmounts)) = num_add sumAmounts (received_euros intent)"
  by (simp add: methodStats_step_eq Let_def)

lemma fold_methodStats_sum:
  "snd (fold methodStats_step successful acc)
     = foldl num_add (snd acc) (map received_euros successful)"
proof (induction successful arbitrary: acc)
  case Nil
  show ?case by simp
next
  case (Cons intent successful)
  show ?case
    using methodStats_step_sum [of intent "fst acc" "snd acc"]
    by (simp add: Cons.IH)
qed

lemma fold_methodStats_distinct:
  "distinct (map fst (fst acc)) \<Longrightarrow> distinct (map fst (fst (fold methodStats_step successful acc)))"
proof (induction successful arbitrary: acc)
  case Nil
  then show ?case by simp
next
  case (Cons intent successful)
  have "distinct (map fst (fst (methodStats_step intent acc)))"
    using Cons.prems methodStats_step_keys [of intent "fst acc" "snd acc"] by auto
  then show ?case by (simp add: Cons.IH)
qed

text \<open>
  After the loop, the entry of a method holds the number of the successful intents filed
  under it and the sum of their euros, added in the order of the list.
\<close>

lemma fold_methodStats_map_of:
  "map_of (fst (fold methodStats_step successful acc)) k
     = (if k \<in> declared_method ` set successful
        then Some
          \<lparr>ms_count = (case map_of (fst acc) k of None \<Rightarrow> 0 | Some st \<Rightarrow> ms_count st)
              + length (filter (\<lambda>intent. declared_method intent = k) successful),
           ms_value = foldl num_add (case map_of (fst acc) k of None \<Rightarrow> Num 0 | Some st \<Rightarrow> ms_value st)
              (map received_euros (filter (\<lambda>intent. declared_method intent = k) successful))\<rparr>
        else map_of (fst acc) k)"
proof (induction successful arbitrary: acc)
  case Nil
  show ?case by simp
next
  case (Cons intent successful)
  let ?acc1 = "methodStats_step intent acc"
  have m: "map_of (fst ?acc1)
     = (map_of (fst acc))(declared_method intent \<mapsto>
          (case map_of (fst acc) (declared_method intent) of
             None \<Rightarrow> \<lparr>ms_count = 1, ms_value = num_add (Num 0) (received_euros intent)\<rparr>
           | Some st \<Rightarrow>
               \<lparr>ms_count = ms_count st + 1, ms_value = num_add (ms_value st) (received_euros intent)\<rparr>))"
    using methodStats_step_map_of [of intent "fst acc" "snd acc"] by simp
  show ?case
  proof (cases "k = declared_method intent")
    case True
    have e: "filter (\<lambda>i. declared_method i = declared_method intent) successful = []"
      if n: "declared_method intent \<notin> declared_method ` set successful"
    proof -
      have "declared_method x \<noteq> declared_method intent" if "x \<in> set successful" for x
        using imageI [OF that, of declared_method] n by metis
      then show ?thesis
        by (simp add: filter_empty_conv)
    qed
    from True Cons.IH [of ?acc1] m e show ?thesis
      by (auto split: option.splits)
  next
    case False
    with Cons.IH [of ?acc1] m show ?thesis
      by auto
  qed
qed

text \<open>\<^verbatim>\<open>x > 0\<close> holds of the positive numbers, the infinity among them, and not of NaN.\<close>

lemma num_gt_zero: "num_gt x (Num 0) \<longleftrightarrow> x = PosInfinity \<or> (\<exists>r. x = Num r \<and> 0 < r)"
  by (cases x) simp_all

text \<open>What getPaymentStats returns, in terms of the final dictionary and the detected refunds.\<close>

lemma getPaymentStats_served:
  assumes "paymentIntents_list env 100 s = (Inr paymentsPage, s1)"
      and "charges_served env (page_data paymentsPage) s1 pages s2"
  shows "getPaymentStats env s =
     (Inr \<lparr>successRate =
             (if page_data paymentsPage = [] then Num 0
              else num_mul (num_div
                     (Num (of_nat (length (filter (\<lambda>p. pi_status p = ''succeeded'') (page_data paymentsPage)))))
                     (Num (of_nat (length (page_data paymentsPage))))) (Num 100)),
           averageValue =
             (if filter (\<lambda>p. pi_status p = ''succeeded'') (page_data paymentsPage) = [] then Num 0
              else num_div
                     (foldl num_add (Num 0) (map received_euros
                        (filter (\<lambda>p. pi_status p = ''succeeded'') (page_data paymentsPage))))
                     (Num (of_nat (length (filter (\<lambda>p. pi_status p = ''succeeded'') (page_data paymentsPage)))))),
           refundRate =
             (if page_data paymentsPage = [] then Num 0
              else num_mul (num_div
                     (Num (of_nat (length (fold Set_add (map (\<lambda>(intent, page). pi_id intent)
                        (filter (\<lambda>(intent, page). \<exists>c\<in>set (page_data page).
                                   ch_refunded c \<or> num_gt (ch_amount_refunded c) (Num 0))
                           (zip (page_data paymentsPage) pages))) []))))
                     (Num (of_nat (length (page_data paymentsPage))))) (Num 100)),
           byMethod = map (\<lambda>(method, stats).
             \<lparr>bm_method = method, bm_count = ms_count stats, bm_value = ms_value stats\<rparr>)
             (fst (fold methodStats_step
                (filter (\<lambda>p. pi_status p = ''succeeded'') (page_data paymentsPage)) ([], Num 0)))\<rparr>,
      s2)"
proof -
  obtain methodStats sumAmounts where f:
    "fold methodStats_step (filter (\<lambda>p. pi_status p = ''succeeded'') (page_data paymentsPage)) ([], Num 0)
       = (methodStats, sumAmounts)"
    by (cases "fold methodStats_step
                 (filter (\<lambda>p. pi_status p = ''succeeded'') (page_data paymentsPage)) ([], Num 0)")
  have sm: "sumAmounts
      = foldl num_add (Num 0) (map received_euros
          (filter (\<lambda>p. pi_status p = ''succeeded'') (page_data paymentsPage)))"
    using fold_methodStats_sum
      [of "filter (\<lambda>p. pi_status p = ''succeeded'') (page_data paymentsPage)" "([], Num 0)"] f
    by simp
  show ?thesis
    by (simp add: getPaymentStats_def await_def resolve_def Let_def assms(1)
          refundedIntents_loop_served [OF assms(2)] f sm)
qed

lemma byMethod_entries:
  fixes successful :: "payment_intent list"
  defines "methodStats \<equiv> fst (fold methodStats_step successful ([], Num 0))"
  defines "entries \<equiv> map (\<lambda>(method, stats).
      \<lparr>bm_method = method, bm_count = ms_count stats, bm_value = ms_value stats\<rparr>) methodStats"
  shows "distinct (map bm_method entries)"
    and "set (map bm_method entries) = declared_method ` set successful"
    and "\<forall>b\<in>set entries.
           bm_count b = length (filter (\<lambda>i. declared_method i = bm_method b) successful)
           \<and> bm_value b = foldl num_add (Num 0)
               (map received_euros (filter (\<lambda>i. declared_method i = bm_method b) successful))"
proof -
  have keys: "map bm_method entries = map fst methodStats"
    by (simp add: entries_def case_prod_unfold comp_def)
  have d: "distinct (map fst methodStats)"
    unfolding methodStats_def by (rule fold_methodStats_distinct) simp
  have m: "map_of methodStats k
     = (if k \<in> declared_method ` set successful
        then Some \<lparr>ms_count = length (filter (\<lambda>i. declared_method i = k) successful),
                   ms_value = foldl num_add (Num 0)
                     (map received_euros (filter (\<lambda>i. declared_method i = k) successful))\<rparr>
        else None)" for k
    unfolding methodStats_def
    using fold_methodStats_map_of [of successful "([], Num 0)" k] by simp
  show "distinct (map bm_method entries)"
    using d keys by simp
  show "set (map bm_method entries) = declared_method ` set successful"
  proof -
    have "k \<in> set (map fst methodStats) \<longleftrightarrow> k \<in> declared_method ` set successful" for k
      using m [of k] map_of_eq_None_iff [of methodStats k] by (auto split: if_splits)
    then show ?thesis unfolding keys by blast
  qed
  show "\<forall>b\<in>set entries.
           bm_count b = length (filter (\<lambda>i. declared_method i = bm_method b) successful)
           \<and> bm_value b = foldl num_add (Num 0)
               (map received_euros (filter (\<lambda>i. declared_method i = bm_method b) successful))"
  proof
    fix b assume "b \<in> set entries"
    then obtain k st where kst: "(k, st) \<in> set methodStats"
        and b: "b = \<lparr>bm_method = k, bm_count = ms_count st, bm_value = ms_value st\<rparr>"
      by (auto simp: entries_def)
    from kst d have "map_of methodStats k = Some st" by simp
    with m [of k] have "st = \<lparr>ms_count = length (filter (\<lambda>i. declared_method i = k) successful),
                   ms_value = foldl num_add (Num 0)
                     (map received_euros (filter (\<lambda>i. declared_method i = k) successful))\<rparr>"
      by (auto split: if_splits)
    with b show "bm_count b = length (filter (\<lambda>i. declared_method i = bm_method b) successful)
           \<and> bm_value b = foldl num_add (Num 0)
               (map received_euros (filter (\<lambda>i. declared_method i = bm_method b) successful))"
      by simp
  qed
qed

text \<open>
  Claim C4. When the platform lists the payment attempts and serves the charges of each
  of them, getPaymentStats returns statistics computed in double arithmetic as follows.
  successRate is the number of succeeded attempts divided by the number of attempts,
  times 100. refundRate is the number of distinct ids of attempts with a refunded charge
  divided by the number of attempts, times 100. averageValue is the sum of the euros of
  the succeeded attempts divided by their number, the euros of an attempt being its
  received amount (0 when missing) divided by 100, and the sum being taken from 0 in
  list order. byMethod has one entry for each method of a succeeded attempt, the method
  being the first of its declared payment-method types (\<^verbatim>\<open>unknown\<close> when it declares
  none), with the number of the succeeded attempts of that method and the sum of their
  euros, taken from 0 in list order. With no attempt at all, the three numbers are 0
  and byMethod is empty; nothing is divided by zero.
\<close>

theorem getPaymentStats_rates:
  fixes paymentsPage :: "payment_intent list_page"
  defines "payments \<equiv> page_data paymentsPage"
  defines "successful \<equiv> filter (\<lambda>p. pi_status p = ''succeeded'') (page_data paymentsPage)"
  defines "method \<equiv> \<lambda>intent. case pi_payment_method_types intent of [] \<Rightarrow> ''unknown'' | m # _ \<Rightarrow> m"
  defines "euros \<equiv> \<lambda>intent.
     num_div (case pi_amount_received intent of None \<Rightarrow> Num 0 | Some a \<Rightarrow> a) (Num 100)"
  assumes "paymentIntents_list env 100 s = (Inr paymentsPage, s1)"
      and "charges_served env (page_data paymentsPage) s1 pages s2"
  shows "\<exists>stats. getPaymentStats env s = (Inr stats, s2)
     \<and> successRate stats
         = (if payments = [] then Num 0
            else num_mul (num_div (Num (of_nat (length successful))) (Num (of_nat (length payments))))
                   (Num 100))
     \<and> refundRate stats
         = (if payments = [] then Num 0
            else num_mul (num_div
                   (Num (of_nat (card {pi_id intent | intent page.
                      (intent, page) \<in> set (zip payments pages)
                      \<and> (\<exists>c\<in>set (page_data page). (ch_refunded c \<or> ch_amount_refunded c = PosInfinity \<or> (\<exists>r. ch_amount_refunded c = Num r \<and> 0 < r)))})))
                   (Num (of_nat (length payments)))) (Num 100))
     \<and> averageValue stats
         = (if successful = [] then Num 0
            else num_div (foldl num_add (Num 0) (map euros successful))
                   (Num (of_nat (length successful))))
     \<and> distinct (map bm_method (byMethod stats))
     \<and> set (map bm_method (byMethod stats)) = method ` set successful
     \<and> (\<forall>b\<in>set (byMethod stats).
           bm_count b = length (filter (\<lambda>i. method i = bm_method b) successful)
           \<and> bm_value b = foldl num_add (Num 0)
               (map euros (filter (\<lambda>i. method i = bm_method b) successful)))
     \<and> (payments = [] \<longrightarrow>
           stats = \<lparr>successRate = Num 0, averageValue = Num 0, refundRate = Num 0, byMethod = []\<rparr>)"
proof -
  define entries where "entries = map (\<lambda>(method, stats).
      \<lparr>bm_method = method, bm_count = ms_count stats, bm_value = ms_value stats\<rparr>)
      (fst (fold methodStats_step successful ([], Num 0)))"
  define ids where "ids = map (\<lambda>(intent, page). pi_id intent)
      (filter (\<lambda>(intent, page). \<exists>c\<in>set (page_data page).
                 ch_refunded c \<or> num_gt (ch_amount_refunded c) (Num 0))
         (zip payments pages))"
  define stats where "stats =
     \<lparr>successRate =
        (if payments = [] then Num 0
         else num_mul (num_div (Num (of_nat (length successful))) (Num (of_nat (length payments))))
                (Num 100)),
      averageValue =
        (if successful = [] then Num 0
         else num_div (foldl num_add (Num 0) (map euros successful))
                (Num (of_nat (length successful)))),
      refundRate =
        (if payments = [] then Num 0
         else num_mul (num_div (Num (of_nat (length (fold Set_add ids []))))
                (Num (of_nat (length payments)))) (Num 100)),
      byMethod = entries\<rparr>"
  have run: "getPaymentStats env s = (Inr stats, s2)"
    unfolding stats_def entries_def ids_def payments_def successful_def euros_def
    by (rule getPaymentStats_served [OF assms(5,6)])
  have ids: "length (fold Set_add ids [])
      = card {pi_id intent | intent page. (intent, page) \<in> set (zip payments pages)
                \<and> (\<exists>c\<in>set (page_data page). (ch_refunded c \<or> ch_amount_refunded c = PosInfinity \<or> (\<exists>r. ch_amount_refunded c = Num r \<and> 0 < r)))}"
  proof -
    have "set ids = {pi_id intent | intent page. (intent, page) \<in> set (zip payments pages)
                \<and> (\<exists>c\<in>set (page_data page). (ch_refunded c \<or> ch_amount_refunded c = PosInfinity \<or> (\<exists>r. ch_amount_refunded c = Num r \<and> 0 < r)))}"
      unfolding ids_def num_gt_zero by force
    then show ?thesis
      by (simp only: length_fold_Set_add)
  qed
  have no_succ: "successful = []" if "payments = []"
    using that by (simp add: successful_def payments_def)
  have empty: "stats = \<lparr>successRate = Num 0, averageValue = Num 0, refundRate = Num 0, byMethod = []\<rparr>"
    if "payments = []"
    using that no_succ [OF that] by (simp add: stats_def entries_def)
  have "successRate stats
         = (if payments = [] then Num 0
            else num_mul (num_div (Num (of_nat (length successful))) (Num (of_nat (length payments))))
                   (Num 100))"
    by (simp add: stats_def)
  moreover have "refundRate stats
         = (if payments = [] then Num 0
            else num_mul (num_div
                   (Num (of_nat (card {pi_id intent | intent page.
                      (intent, page) \<in> set (zip payments pages)
                      \<and> (\<exists>c\<in>set (page_data page). (ch_refunded c \<or> ch_amount_refunded c = PosInfinity \<or> (\<exists>r. ch_amount_refunded c = Num r \<and> 0 < r)))})))
                   (Num (of_nat (length payments)))) (Num 100))"
    by (simp only: stats_def payment_stats.simps ids)
  moreover have "averageValue stats
         = (if successful = [] then Num 0
            else num_div (foldl num_add (Num 0) (map euros successful))
                   (Num (of_nat (length successful))))"
    by (simp add: stats_def)
  moreover have "byMethod stats = entries"
    by (simp add: stats_def)
  moreover note byMethod_entries [of successful, folded entries_def]
    empty run
  ultimately show ?thesis
    by (intro exI [of _ stats]) (simp add: method_def euros_def)
qed

lemma served_by_charges_list:
  assumes "charges_list env = (\<lambda>q. answer ''charges.list''
        \<lparr>page_data = stats_charges (cl_payment_intent q), has_more = False\<rparr>)"
  shows "charges_served env payments w
     (map (\<lambda>i. \<lparr>page_data = stats_charges (Some (pi_id i)), has_more = False\<rparr>) payments)
     (w\<lparr>w_trace := w_trace w @ replicate (length payments) ''charges.list''\<rparr>)"
proof (induction payments arbitrary: w)
  case Nil
  show ?case by (simp add: no_intent)
next
  case (Cons intent payments)
  have "charges_list env
          \<lparr>cl_created = None, cl_payment_intent = Some (pi_id intent), cl_limit = 100,
           cl_starting_after = None\<rparr> w
        = (Inr \<lparr>page_data = stats_charges (Some (pi_id intent)), has_more = False\<rparr>,
           trace ''charges.list'' w)"
    by (simp add: assms answer_def)
  moreover have "charges_served env payments (trace ''charges.list'' w)
     (map (\<lambda>i. \<lparr>page_data = stats_charges (Some (pi_id i)), has_more = False\<rparr>) payments)
     (w\<lparr>w_trace := w_trace w @ replicate (length (intent # payments)) ''charges.list''\<rparr>)"
    using Cons.IH [of "trace ''charges.list'' w"]
    by (simp add: trace_def replicate_app_Cons_same)
  ultimately show ?case
    by (simp add: next_intent)
qed

lemma stats_env_run:
  "getPaymentStats stats_env w0
     = (Inr \<lparr>successRate = Num 80, averageValue = Num (35 / 4), refundRate = Num 40,
              byMethod = [\<lparr>bm_method = ''card'', bm_count = 2, bm_value = Num 25\<rparr>,
                          \<lparr>bm_method = ''sepa_debit'', bm_count = 1, bm_value = Num 10\<rparr>,
                          \<lparr>bm_method = ''unknown'', bm_count = 1, bm_value = Num 0\<rparr>]\<rparr>,
        w0\<lparr>w_trace := [''paymentIntents.list'', ''charges.list'', ''charges.list'',
                        ''charges.list'', ''charges.list'', ''charges.list'']\<rparr>)"
  by (simp add: getPaymentStats_def await_def resolve_def methodStats_step_def
        Set_add_def stats_payments_def stats_charges_def fl_eval
        stats_env_def offline_env_def answer_def trace_def w0_def)

lemma cents_env_run:
  "getPaymentStats cents_env w0
     = (Inr \<lparr>successRate = Num (2345624805922133 / 35184372088832),
              averageValue = Num (1351079888211149 / 9007199254740992),
              refundRate = Num (2345624805922133 / 70368744177664),
              byMethod = [\<lparr>bm_method = ''card'', bm_count = 2,
                           bm_value = Num (1351079888211149 / 4503599627370496)\<rparr>]\<rparr>,
        w0\<lparr>w_trace := [''paymentIntents.list'', ''charges.list'', ''charges.list'', ''charges.list'']\<rparr>)"
  by (simp add: getPaymentStats_def await_def resolve_def methodStats_step_def
        Set_add_def cents_payments_def stats_charges_def fl_eval
        cents_env_def offline_env_def answer_def trace_def w0_def)

theorem getPaymentStats_rates_witness:
  "getPaymentStats stats_env w0
     = (Inr \<lparr>successRate = Num 80, averageValue = Num (35 / 4), refundRate = Num 40,
              byMethod = [\<lparr>bm_method = ''card'', bm_count = 2, bm_value = Num 25\<rparr>,
                          \<lparr>bm_method = ''sepa_debit'', bm_count = 1, bm_value = Num 10\<rparr>,
                          \<lparr>bm_method = ''unknown'', bm_count = 1, bm_value = Num 0\<rparr>]\<rparr>,
        w0\<lparr>w_trace := [''paymentIntents.list'', ''charges.list'', ''charges.list'',
                        ''charges.list'', ''charges.list'', ''charges.list'']\<rparr>)
   \<and> getPaymentStats cents_env w0
     = (Inr \<lparr>successRate = Num (2345624805922133 / 35184372088832),
              averageValue = Num (1351079888211149 / 9007199254740992),
              refundRate = Num (2345624805922133 / 70368744177664),
              byMethod = [\<lparr>bm_method = ''card'', bm_count = 2,
                           bm_value = Num (1351079888211149 / 4503599627370496)\<rparr>]\<rparr>,
        w0\<lparr>w_trace := [''paymentIntents.list'', ''charges.list'', ''charges.list'', ''charges.list'']\<rparr>)
   \<and> getPaymentStats no_payments_env w0
     = (Inr \<lparr>successRate = Num 0, averageValue = Num 0, refundRate = Num 0, byMethod = []\<rparr>,
        w0\<lparr>w_trace := [''paymentIntents.list'']\<rparr>)"
proof -
  have l: "paymentIntents_list stats_env 100 w0
      = (Inr \<lparr>page_data = stats_payments, has_more = True\<rparr>, w0\<lparr>w_trace := [''paymentIntents.list'']\<rparr>)"
    by (simp add: stats_env_def offline_env_def answer_def trace_def w0_def)
  have c: "charges_served stats_env (page_data \<lparr>page_data = stats_payments, has_more = True\<rparr>)
      (w0\<lparr>w_trace := [''paymentIntents.list'']\<rparr>)
      (map (\<lambda>i. \<lparr>page_data = stats_charges (Some (pi_id i)), has_more = False\<rparr>) stats_payments)
      (w0\<lparr>w_trace := [''paymentIntents.list'', ''charges.list'', ''charges.list'',
                        ''charges.list'', ''charges.list'', ''charges.list'']\<rparr>)"
    using served_by_charges_list [of stats_env stats_payments "w0\<lparr>w_trace := [''paymentIntents.list'']\<rparr>"]
    by (simp add: stats_env_def offline_env_def stats_payments_def w0_def)
  have l1: "paymentIntents_list cents_env 100 w0
      = (Inr \<lparr>page_data = cents_payments, has_more = False\<rparr>, w0\<lparr>w_trace := [''paymentIntents.list'']\<rparr>)"
    by (simp add: cents_env_def offline_env_def answer_def trace_def w0_def)
  have c1: "charges_served cents_env (page_data \<lparr>page_data = cents_payments, has_more = False\<rparr>)
      (w0\<lparr>w_trace := [''paymentIntents.list'']\<rparr>)
      (map (\<lambda>i. \<lparr>page_data = stats_charges (Some (pi_id i)), has_more = False\<rparr>) cents_payments)
      (w0\<lparr>w_trace := [''paymentIntents.list'', ''charges.list'', ''charges.list'', ''charges.list'']\<rparr>)"
    using served_by_charges_list [of cents_env cents_payments "w0\<lparr>w_trace := [''paymentIntents.list'']\<rparr>"]
    by (simp add: cents_env_def offline_env_def cents_payments_def w0_def)
  have l0: "paymentIntents_list no_payments_env 100 w0
      = (Inr \<lparr>page_data = [], has_more = False\<rparr>, w0\<lparr>w_trace := [''paymentIntents.list'']\<rparr>)"
    by (simp add: no_payments_env_def offline_env_def answer_def trace_def w0_def)
  have c0: "charges_served no_payments_env (page_data \<lparr>page_data = [], has_more = False\<rparr>)
      (w0\<lparr>w_trace := [''paymentIntents.list'']\<rparr>) [] (w0\<lparr>w_trace := [''paymentIntents.list'']\<rparr>)"
    by (simp add: no_intent)
  from getPaymentStats_rates [OF l0 c0]
  have ev0: "getPaymentStats no_payments_env w0
     = (Inr \<lparr>successRate = Num 0, averageValue = Num 0, refundRate = Num 0, byMethod = []\<rparr>,
        w0\<lparr>w_trace := [''paymentIntents.list'']\<rparr>)"
    by auto
  from getPaymentStats_rates [OF l c] getPaymentStats_rates [OF l1 c1] stats_env_run cents_env_run ev0
  show ?thesis
    by (elim exE) (intro conjI)
qed

text \<open>
  Claim C9. In getPaymentStats the set of refunded attempts holds the id of an attempt
  iff one of the charges the platform lists for it carries the refunded flag or a
  refunded amount above 0, so a partial refund counts as a full one. The set holds each
  id once, however many of the attempt's charges are refunded, and refundRate is
  computed from its size: the size divided by the number of attempts, times 100, in
  double arithmetic, and 0 when there is no attempt.
\<close>

theorem getPaymentStats_refund_detection:
  assumes "paymentIntents_list env 100 s = (Inr paymentsPage, s1)"
      and "charges_served env (page_data paymentsPage) s1 pages s2"
  shows "\<exists>stats refundedIntents.
       getPaymentStats env s = (Inr stats, s2)
     \<and> refundedIntents_loop env (page_data paymentsPage) [] s1 = (Inr refundedIntents, s2)
     \<and> distinct refundedIntents
     \<and> (\<forall>x. x \<in> set refundedIntents \<longleftrightarrow>
           (\<exists>intent page. (intent, page) \<in> set (zip (page_data paymentsPage) pages)
              \<and> pi_id intent = x
              \<and> (\<exists>c\<in>set (page_data page). (ch_refunded c \<or> ch_amount_refunded c = PosInfinity \<or> (\<exists>r. ch_amount_refunded c = Num r \<and> 0 < r)))))
     \<and> refundRate stats
         = (if page_data paymentsPage = [] then Num 0
            else num_mul (num_div (Num (of_nat (length refundedIntents)))
                   (Num (of_nat (length (page_data paymentsPage))))) (Num 100))"
proof -
  define ids where "ids = map (\<lambda>(intent, page). pi_id intent)
      (filter (\<lambda>(intent, page). \<exists>c\<in>set (page_data page).
                 ch_refunded c \<or> num_gt (ch_amount_refunded c) (Num 0))
         (zip (page_data paymentsPage) pages))"
  define refundedIntents where "refundedIntents = fold Set_add ids []"
  have loop: "refundedIntents_loop env (page_data paymentsPage) [] s1 = (Inr refundedIntents, s2)"
    unfolding refundedIntents_def ids_def by (rule refundedIntents_loop_served [OF assms(2)])
  have d: "distinct refundedIntents"
    unfolding refundedIntents_def by (rule distinct_fold_Set_add) simp
  have m: "x \<in> set refundedIntents \<longleftrightarrow>
           (\<exists>intent page. (intent, page) \<in> set (zip (page_data paymentsPage) pages)
              \<and> pi_id intent = x
              \<and> (\<exists>c\<in>set (page_data page). (ch_refunded c \<or> ch_amount_refunded c = PosInfinity \<or> (\<exists>r. ch_amount_refunded c = Num r \<and> 0 < r))))" for x
    unfolding refundedIntents_def set_fold_Set_add ids_def num_gt_zero by force
  obtain stats where run: "getPaymentStats env s = (Inr stats, s2)"
    and rate: "refundRate stats
         = (if page_data paymentsPage = [] then Num 0
            else num_mul (num_div (Num (of_nat (length refundedIntents)))
                   (Num (of_nat (length (page_data paymentsPage))))) (Num 100))"
    using getPaymentStats_served [OF assms]
    by (simp add: refundedIntents_def ids_def)
  from run loop d m rate show ?thesis
    by blast
qed

theorem getPaymentStats_refund_detection_witness:
  "refundedIntents_loop stats_env stats_payments [] (w0\<lparr>w_trace := [''paymentIntents.list'']\<rparr>)
     = (Inr [''pi_2'', ''pi_4''], w0\<lparr>w_trace := [''paymentIntents.list'', ''charges.list'', ''charges.list'',
                        ''charges.list'', ''charges.list'', ''charges.list'']\<rparr>)
   \<and> (\<exists>stats w. getPaymentStats stats_env w0 = (Inr stats, w) \<and> refundRate stats = Num 40)
   \<and> refundedIntents_loop cents_env cents_payments [] (w0\<lparr>w_trace := [''paymentIntents.list'']\<rparr>)
     = (Inr [''pi_2''], w0\<lparr>w_trace := [''paymentIntents.list'', ''charges.list'', ''charges.list'', ''charges.list'']\<rparr>)
   \<and> (\<exists>stats w. getPaymentStats cents_env w0 = (Inr stats, w)
         \<and> refundRate stats = Num (2345624805922133 / 70368744177664))"
proof -
  have l: "paymentIntents_list stats_env 100 w0
      = (Inr \<lparr>page_data = stats_payments, has_more = True\<rparr>, w0\<lparr>w_trace := [''paymentIntents.list'']\<rparr>)"
    by (simp add: stats_env_def offline_env_def answer_def trace_def w0_def)
  have c: "charges_served stats_env (page_data \<lparr>page_data = stats_payments, has_more = True\<rparr>)
      (w0\<lparr>w_trace := [''paymentIntents.list'']\<rparr>)
      (map (\<lambda>i. \<lparr>page_data = stats_charges (Some (pi_id i)), has_more = False\<rparr>) stats_payments)
      (w0\<lparr>w_trace := [''paymentIntents.list'', ''charges.list'', ''charges.list'',
                        ''charges.list'', ''charges.list'', ''charges.list'']\<rparr>)"
    using served_by_charges_list [of stats_env stats_payments "w0\<lparr>w_trace := [''paymentIntents.list'']\<rparr>"]
    by (simp add: stats_env_def offline_env_def stats_payments_def w0_def)
  have l1: "paymentIntents_list cents_env 100 w0
      = (Inr \<lparr>page_data = cents_payments, has_more = False\<rparr>, w0\<lparr>w_trace := [''paymentIntents.list'']\<rparr>)"
    by (simp add: cents_env_def offline_env_def answer_def trace_def w0_def)
  have c1: "charges_served cents_env (page_data \<lparr>page_data = cents_payments, has_more = False\<rparr>)
      (w0\<lparr>w_trace := [''paymentIntents.list'']\<rparr>)
      (map (\<lambda>i. \<lparr>page_data = stats_charges (Some (pi_id i)), has_more = False\<rparr>) cents_payments)
      (w0\<lparr>w_trace := [''paymentIntents.list'', ''charges.list'', ''charges.list'', ''charges.list'']\<rparr>)"
    using served_by_charges_list [of cents_env cents_payments "w0\<lparr>w_trace := [''paymentIntents.list'']\<rparr>"]
    by (simp add: cents_env_def offline_env_def cents_payments_def w0_def)
  have ev: "refundedIntents_loop stats_env stats_payments [] (w0\<lparr>w_trace := [''paymentIntents.list'']\<rparr>)
     = (Inr [''pi_2'', ''pi_4''], w0\<lparr>w_trace := [''paymentIntents.list'', ''charges.list'', ''charges.list'',
                        ''charges.list'', ''charges.list'', ''charges.list'']\<rparr>)"
    by (simp add: await_def resolve_def Set_add_def stats_payments_def stats_charges_def
          stats_env_def offline_env_def answer_def trace_def w0_def)
  have ev1: "refundedIntents_loop cents_env cents_payments [] (w0\<lparr>w_trace := [''paymentIntents.list'']\<rparr>)
     = (Inr [''pi_2''], w0\<lparr>w_trace := [''paymentIntents.list'', ''charges.list'', ''charges.list'', ''charges.list'']\<rparr>)"
    by (simp add: await_def resolve_def Set_add_def cents_payments_def stats_charges_def
          cents_env_def offline_env_def answer_def trace_def w0_def)
  from getPaymentStats_refund_detection [OF l c]
  obtain stats r where run: "getPaymentStats stats_env w0 = (Inr stats, w0\<lparr>w_trace := [''paymentIntents.list'', ''charges.list'', ''charges.list'',
                        ''charges.list'', ''charges.list'', ''charges.list'']\<rparr>)"
    and loop: "refundedIntents_loop stats_env stats_payments [] (w0\<lparr>w_trace := [''paymentIntents.list'']\<rparr>)
       = (Inr r, w0\<lparr>w_trace := [''paymentIntents.list'', ''charges.list'', ''charges.list'',
                        ''charges.list'', ''charges.list'', ''charges.list'']\<rparr>)"
    and rate: "refundRate stats = (if stats_payments = [] then Num 0
            else num_mul (num_div (Num (of_nat (length r))) (Num (of_nat (length stats_payments))))
                   (Num 100))"
    by auto
  from loop ev have "r = [''pi_2'', ''pi_4'']" by simp
  with rate have r40: "refundRate stats = Num 40"
    by (simp add: stats_payments_def fl_eval)
  from getPaymentStats_refund_detection [OF l1 c1]
  obtain stats1 r1 where run1: "getPaymentStats cents_env w0 = (Inr stats1, w0\<lparr>w_trace := [''paymentIntents.list'', ''charges.list'', ''charges.list'', ''charges.list'']\<rparr>)"
    and loop1: "refundedIntents_loop cents_env cents_payments [] (w0\<lparr>w_trace := [''paymentIntents.list'']\<rparr>)
       = (Inr r1, w0\<lparr>w_trace := [''paymentIntents.list'', ''charges.list'', ''charges.list'', ''charges.list'']\<rparr>)"
    and rate1: "refundRate stats1 = (if cents_payments = [] then Num 0
            else num_mul (num_div (Num (of_nat (length r1))) (Num (of_nat (length cents_payments))))
                   (Num 100))"
    by auto
  from loop1 ev1 have "r1 = [''pi_2'']" by simp
  with rate1 have r33: "refundRate stats1 = Num (2345624805922133 / 70368744177664)"
    by (simp add: cents_payments_def fl_eval)
  from run r40 run1 r33 ev ev1 show ?thesis by blast
qed

end
